theory Spec2Isabelle
  imports Main "HOL-Library.Word"
begin

section \<open>Strings\<close>

text \<open>
  A \<open>QString\<close> is a sequence of 16-bit code units. A \<open>const char*\<close> and the
  contents of a \<open>QByteArray\<close> are sequences of bytes, written as HOL strings.
\<close>

type_synonym qstring = "16 word list"

text \<open>A string literal of the source (\<open>"Python Operator"\<close>, \<open>"tomviz_%1"\<close>) as a
  \<open>QString\<close>: the literals of the file are ASCII, one code unit per byte.\<close>

definition QLit :: "string \<Rightarrow> qstring" where
  "QLit s = map of_char s"

text \<open>\<open>QString::toLatin1()\<close>: a code unit above \<open>0xFF\<close> has no Latin-1 byte and
  is replaced by a question mark.\<close>

definition toLatin1 :: "qstring \<Rightarrow> string" where
  "toLatin1 s = map (\<lambda>c. if unat c < 256 then char_of (unat c) else CHR ''?'') s"

text \<open>\<open>QByteArray::data()\<close> handed to a function that takes a \<open>const char*\<close>:
  the bytes up to the first NUL.\<close>

definition c_str :: "string \<Rightarrow> string" where
  "c_str b = takeWhile (\<lambda>c. c \<noteq> CHR 0x00) b"

section \<open>Values of the JSON library\<close>

text \<open>\<open>Json::Value\<close> is a tagged union; the numeric kinds are one constructor, since
  the operator never reads a number.\<close>

datatype json =
    JNull
  | JBool bool
  | JNumber int
  | JString string
  | JArray "json list"
  | JObject "(string \<times> json) list"

section \<open>Failures and output\<close>

text \<open>What stops the program instead of returning: a call through a null
  \<open>PyObject*\<close>, a failed \<open>Q_ASSERT\<close>, a failed assertion of the JSON library
  (an accessor used on a value of the wrong kind).\<close>

datatype fault = NullPointer | AssertionFailed | JsonLogicError

text \<open>The items streamed into one \<open>qCritical()\<close> line.\<close>

datatype msg = Text string | Quoted qstring | Count nat

text \<open>What the operator writes and emits, in order: \<open>qCritical\<close> lines, the traceback
  that \<open>PyErr_Print\<close> prints, and the Qt signals.\<close>

datatype 'd event =
    Critical "msg list"
  | Traceback
  | labelModified
  | transformModified
  | newOperatorResult qstring 'd
  | newChildDataSource qstring 'd

section \<open>The libraries the operator calls\<close>

text \<open>
  The Python interpreter, the VTK wrapping layer, the JSON reader and the conversion
  \<open>QString(const char*)\<close> (Latin-1 or UTF-8, depending on the version of Qt) are not
  part of the repository: they are parameters, and every theorem holds whatever they
  answer. \<open>'p\<close> is the type of Python objects, \<open>'v\<close> of VTK objects, \<open>'d\<close> of VTK
  data objects, and \<open>'s\<close> of the states of the interpreter: the modules it has loaded,
  what its objects hold, and its error indicator. A function that enters the
  interpreter takes the state before the call and returns its result with the state
  after the call, so that what a call answers may depend on every call made before
  it, and a call may set or clear the error indicator. A \<open>PyObject*\<close> that may be
  null is a \<open>'p option\<close>. \<open>PyErr_Occurred\<close> reads the error indicator.
  \<open>PyDict_Check\<close> reads the type of its argument and \<open>SafeDownCast\<close> the class of a
  VTK object; they do not enter the interpreter. \<open>capsule\<close> is the
  \<open>pybind11::capsule\<close> that holds the pointer to the operator.
\<close>

record ('p, 'v, 'd, 's) libs =
  fromCString :: "string \<Rightarrow> qstring"
  Json_parse :: "string \<Rightarrow> json option"
  PyImport_ImportModule :: "string \<Rightarrow> 's \<Rightarrow> 'p option \<times> 's"
  PyObject_GetAttrString :: "'p \<Rightarrow> string \<Rightarrow> 's \<Rightarrow> 'p option \<times> 's"
  Py_CompileString :: "string \<Rightarrow> string \<Rightarrow> 's \<Rightarrow> 'p option \<times> 's"
  PyImport_ExecCodeModule :: "string \<Rightarrow> 'p \<Rightarrow> 's \<Rightarrow> 'p option \<times> 's"
  PyObject_Call :: "'p \<Rightarrow> 'p list \<Rightarrow> 's \<Rightarrow> 'p option \<times> 's"
  capsule :: "'p"
  Py_True :: "'p"
  GetObjectFromPointer :: "'d \<Rightarrow> 's \<Rightarrow> 'p \<times> 's"
  PyDict_Check :: "'p \<Rightarrow> bool"
  PyDict_GetItemString :: "'p \<Rightarrow> string \<Rightarrow> 's \<Rightarrow> 'p option \<times> 's"
  GetPointerFromObject :: "'p \<Rightarrow> string \<Rightarrow> 's \<Rightarrow> 'v option \<times> 's"
  SafeDownCast :: "'v \<Rightarrow> 'd option"
  PyObject_Repr :: "'p \<Rightarrow> 's \<Rightarrow> 'p option \<times> 's"
  PyString_AsString :: "'p \<Rightarrow> 's \<Rightarrow> string option \<times> 's"
  PyErr_Occurred :: "'s \<Rightarrow> bool"
  PyErr_Print :: "'s \<Rightarrow> 's"
  PyErr_Clear :: "'s \<Rightarrow> 's"

section \<open>The operator\<close>

text \<open>Modelled from the spec: a Result slot (\<open>OperatorResult\<close>, which is not among the
  source files), with a name and a label, both empty at first.\<close>

record operator_result =
  result_name :: qstring
  result_label :: qstring

text \<open>
  The fields of \<open>OperatorPython\<close> and of its \<open>OPInternals\<close>; the three fields of the
  base class \<open>Operator\<close> that the file sets through setters (the capability flag,
  the child-dataset flag and the Result slots; the base class is not among the source
  files and they are modelled from the spec); the output so far; and the state of the
  interpreter, which is global to the program and is carried along with the operator
  that enters it.
\<close>

record ('p, 'd, 's) operator =
  OperatorModule :: "'p option"
  Code :: "'p option"
  TransformModule :: "'p option"
  TransformMethod :: "'p option"
  InternalModule :: "'p option"
  FindTransformScalarsFunction :: "'p option"
  IsCancelableFunction :: "'p option"
  Label :: qstring
  Script :: qstring
  jsonDescription :: qstring
  m_resultNames :: "qstring list"
  m_childDataSourceNamesAndLabels :: "(qstring \<times> qstring) list"
  supportsCancel :: bool
  hasChildDataSource :: bool
  m_results :: "operator_result list"
  emitted :: "'d event list"
  python :: "'s"

definition qCritical :: "msg list \<Rightarrow> ('p, 'd, 's) operator \<Rightarrow> ('p, 'd, 's) operator" where
  "qCritical m op = op\<lparr>emitted := emitted op @ [Critical m]\<rparr>"

definition emit :: "'d event \<Rightarrow> ('p, 'd, 's) operator \<Rightarrow> ('p, 'd, 's) operator" where
  "emit e op = op\<lparr>emitted := emitted op @ [e]\<rparr>"

text \<open>A call that enters the interpreter: its result, and the operator with the state
  of the interpreter after the call.\<close>

definition python_call ::
  "('s \<Rightarrow> 'a \<times> 's) \<Rightarrow> ('p, 'd, 's) operator \<Rightarrow> 'a \<times> ('p, 'd, 's) operator" where
  "python_call f op = (case f (python op) of (r, s) \<Rightarrow> (r, op\<lparr>python := s\<rparr>))"

text \<open>\<open>CheckForError\<close>: ask the interpreter whether a Python exception is pending;
  if one is, print it, clear it and return true.\<close>

definition CheckForError ::
  "('p, 'v, 'd, 's) libs \<Rightarrow> ('p, 'd, 's) operator \<Rightarrow> bool \<times> ('p, 'd, 's) operator" where
  "CheckForError L op =
    (if PyErr_Occurred L (python op)
     then (True, emit Traceback (op\<lparr>python := PyErr_Clear L (PyErr_Print L (python op))\<rparr>))
     else (False, op))"

text \<open>Modelled from the spec: the accessors \<open>label()\<close> and \<open>script()\<close> of the header
  \<open>OperatorPython.h\<close>, which return the label and the script text.\<close>

definition label :: "('p, 'd, 's) operator \<Rightarrow> qstring" where
  "label op = Label op"

definition script :: "('p, 'd, 's) operator \<Rightarrow> qstring" where
  "script op = Script op"

text \<open>Modelled from the spec: the setter \<open>setSupportsCancel\<close> of the base class
  \<open>Operator\<close>, which stores the capability flag.\<close>

definition setSupportsCancel :: "bool \<Rightarrow> ('p, 'd, 's) operator \<Rightarrow> ('p, 'd, 's) operator" where
  "setSupportsCancel b op = op\<lparr>supportsCancel := b\<rparr>"

definition setLabel :: "qstring \<Rightarrow> ('p, 'd, 's) operator \<Rightarrow> ('p, 'd, 's) operator" where
  "setLabel txt op = emit labelModified (op\<lparr>Label := txt\<rparr>)"

text \<open>
  \<open>OperatorPython::setScript\<close>. \<open>PyObject_Call\<close> reads its callable, so a null
  \<open>FindTransformScalarsFunction\<close> or \<open>IsCancelableFunction\<close> (the constructor could
  not locate it) is a null dereference. The name of the module in which the code is
  run is made of the label alone.
\<close>

definition setScript ::
  "('p, 'v, 'd, 's) libs \<Rightarrow> qstring \<Rightarrow> ('p, 'd, 's) operator \<Rightarrow> fault + ('p, 'd, 's) operator" where
  "setScript L str op =
    (if Script op \<noteq> str then
       (let op1 = op\<lparr>Script := str, Code := None, TransformModule := None,
                     TransformMethod := None\<rparr>
        in (case python_call (Py_CompileString L (c_str (toLatin1 (Script op1)))
                                (c_str (toLatin1 (label op1)))) op1 of
              (compiled, op2) \<Rightarrow>
               (let op3 = op2\<lparr>Code := compiled\<rparr>
                in (case Code op3 of
                      None \<Rightarrow>
                        Inr (qCritical
                               [Text ''Invalid script. Please check the traceback message for details'']
                               (snd (CheckForError L op3)))
                    | Some code \<Rightarrow>
                       (case python_call
                               (PyImport_ExecCodeModule L
                                  (c_str (toLatin1 (QLit ''tomviz_'' @ label op3))) code) op3 of
                          (executed, op4) \<Rightarrow>
                           (let op5 = op4\<lparr>TransformModule := executed\<rparr>
                            in (case TransformModule op5 of
                                  None \<Rightarrow>
                                    Inr (qCritical [Text ''Failed to create module.'']
                                           (snd (CheckForError L op5)))
                                | Some module \<Rightarrow>
                                   (case FindTransformScalarsFunction op5 of
                                      None \<Rightarrow> Inl NullPointer
                                    | Some finder \<Rightarrow>
                                       (case python_call
                                               (PyObject_Call L finder [module, capsule L]) op5 of
                                          (found, op6) \<Rightarrow>
                                           (let op7 = op6\<lparr>TransformMethod := found\<rparr>
                                            in (case TransformMethod op7 of
                                                  None \<Rightarrow>
                                                    Inr (snd (CheckForError L
                                                           (qCritical
                                                              [Text ''Script doesn't have any 'transform_scalars' function.'']
                                                              op7)))
                                                | Some method \<Rightarrow>
                                                   (case IsCancelableFunction op7 of
                                                      None \<Rightarrow> Inl NullPointer
                                                    | Some is_cancelable \<Rightarrow>
                                                       (case python_call
                                                               (PyObject_Call L is_cancelable [module])
                                                               op7 of
                                                          (None, op8) \<Rightarrow>
                                                            Inr (snd (CheckForError L
                                                                   (qCritical
                                                                      [Text ''Error calling is_cancelable.'']
                                                                      op8)))
                                                        | (Some result, op8) \<Rightarrow>
                                                            Inr (emit transformModified
                                                                   (snd (CheckForError L
                                                                      (setSupportsCancel
                                                                         (result = Py_True L)
                                                                         op8)))))))))))))))))
     else Inr op)"

text \<open>
  The constructor, on the interpreter in the given state. \<open>PyObject_GetAttrString\<close>
  reads its object, so a failed import of \<open>tomviz._internal\<close> is a null dereference at
  the first lookup. The defaults of the base class are modelled from the spec: no
  cancellation support, no child dataset, no Result slot.
\<close>

definition OperatorPython :: "('p, 'v, 'd, 's) libs \<Rightarrow> 's \<Rightarrow> fault + ('p, 'd, 's) operator" where
  "OperatorPython L interpreter =
    (let op0 = \<lparr>OperatorModule = None, Code = None, TransformModule = None,
                 TransformMethod = None, InternalModule = None,
                 FindTransformScalarsFunction = None, IsCancelableFunction = None,
                 Label = QLit ''Python Operator'', Script = [], jsonDescription = [],
                 m_resultNames = [], m_childDataSourceNamesAndLabels = [],
                 supportsCancel = False, hasChildDataSource = False, m_results = [],
                 emitted = [], python = interpreter\<rparr>
     in (case python_call (PyImport_ImportModule L ''tomviz.utils'') op0 of
           (utils, op0') \<Rightarrow>
            (let op1 = op0'\<lparr>OperatorModule := utils\<rparr>;
                 op2 = (if OperatorModule op1 = None
                        then snd (CheckForError L
                               (qCritical [Text ''Failed to import tomviz.utils module.''] op1))
                        else op1)
             in (case python_call (PyImport_ImportModule L ''tomviz._internal'') op2 of
                   (internals, op2') \<Rightarrow>
                    (let op3 = op2'\<lparr>InternalModule := internals\<rparr>;
                         op4 = (if InternalModule op3 = None
                                then snd (CheckForError L
                                       (qCritical [Text ''Failed to import tomviz._internal module.'']
                                          op3))
                                else op3)
                     in (case InternalModule op4 of
                           None \<Rightarrow> Inl NullPointer
                         | Some internal \<Rightarrow>
                            (case python_call
                                    (PyObject_GetAttrString L internal ''is_cancelable'') op4 of
                               (cancelable, op4') \<Rightarrow>
                                (let op5 = op4'\<lparr>IsCancelableFunction := cancelable\<rparr>;
                                     op6 = (if IsCancelableFunction op5 = None
                                            then qCritical [Text ''Unable to locate is_cancelable.'']
                                                   (snd (CheckForError L op5))
                                            else op5)
                                 in (case python_call
                                            (PyObject_GetAttrString L internal
                                               ''find_transform_scalars'') op6 of
                                       (finder, op6') \<Rightarrow>
                                        (let op7 = op6'\<lparr>FindTransformScalarsFunction := finder\<rparr>;
                                             op8 = (if FindTransformScalarsFunction op7 = None
                                                    then qCritical
                                                           [Text ''Unable to locate find_transform_scalars.'']
                                                           (snd (CheckForError L op7))
                                                    else op7)
                                         in Inr op8))))))))))"

section \<open>The JSON description\<close>

text \<open>
  The accessors of \<open>Json::Value\<close> that the operator uses. \<open>operator[]\<close> with a key
  needs a null or an object and gives null for a missing member; with an index it
  needs a null or an array and gives null past the end; \<open>asCString\<close> needs a string;
  on another kind of value each of them fails the library's assertion. \<open>size\<close> is the
  number of elements of an array, of members of an object, and 0 otherwise.
\<close>

fun isNull :: "json \<Rightarrow> bool" where
  "isNull JNull = True"
| "isNull _ = False"

fun asCString :: "json \<Rightarrow> fault + string" where
  "asCString (JString s) = Inr (c_str s)"
| "asCString _ = Inl JsonLogicError"

fun json_member :: "json \<Rightarrow> string \<Rightarrow> fault + json" where
  "json_member JNull key = Inr JNull"
| "json_member (JObject members) key =
    Inr (case map_of members key of None \<Rightarrow> JNull | Some v \<Rightarrow> v)"
| "json_member _ key = Inl JsonLogicError"

fun json_at :: "json \<Rightarrow> nat \<Rightarrow> fault + json" where
  "json_at JNull i = Inr JNull"
| "json_at (JArray elements) i = Inr (if i < length elements then elements ! i else JNull)"
| "json_at _ i = Inl JsonLogicError"

fun json_size :: "json \<Rightarrow> nat" where
  "json_size (JArray elements) = length elements"
| "json_size (JObject members) = length (remdups (map fst members))"
| "json_size _ = 0"

text \<open>Sequencing of steps that may fail: the first failure ends the call.\<close>

definition and_then :: "fault + 'a \<Rightarrow> ('a \<Rightarrow> fault + 'b) \<Rightarrow> fault + 'b" where
  "and_then r f = (case r of Inl e \<Rightarrow> Inl e | Inr x \<Rightarrow> f x)"

text \<open>
  Modelled from the spec: the Result slots of the base class \<open>Operator\<close>
  (\<open>setNumberOfResults\<close>, \<open>resultAt\<close>) and the setters of \<open>OperatorResult\<close>, which
  are not among the source files. Setting the number of results rebuilds the slots,
  each with an empty name and label; \<open>resultAt\<close> is null outside the slots.
\<close>

definition setNumberOfResults :: "nat \<Rightarrow> ('p, 'd, 's) operator \<Rightarrow> ('p, 'd, 's) operator" where
  "setNumberOfResults n op =
    op\<lparr>m_results := replicate n \<lparr>result_name = [], result_label = []\<rparr>\<rparr>"

definition resultAt :: "nat \<Rightarrow> ('p, 'd, 's) operator \<Rightarrow> operator_result option" where
  "resultAt i op = (if i < length (m_results op) then Some (m_results op ! i) else None)"

definition result_setName :: "nat \<Rightarrow> qstring \<Rightarrow> ('p, 'd, 's) operator \<Rightarrow> ('p, 'd, 's) operator" where
  "result_setName i s op =
    op\<lparr>m_results := (m_results op)[i := (m_results op ! i)\<lparr>result_name := s\<rparr>]\<rparr>"

definition result_setLabel :: "nat \<Rightarrow> qstring \<Rightarrow> ('p, 'd, 's) operator \<Rightarrow> ('p, 'd, 's) operator" where
  "result_setLabel i s op =
    op\<lparr>m_results := (m_results op)[i := (m_results op ! i)\<lparr>result_label := s\<rparr>]\<rparr>"

text \<open>Modelled from the spec: the setter \<open>setHasChildDataSource\<close> of the base class
  \<open>Operator\<close>, which records that the operator expects a child dataset.\<close>

definition setHasChildDataSource :: "bool \<Rightarrow> ('p, 'd, 's) operator \<Rightarrow> ('p, 'd, 's) operator" where
  "setHasChildDataSource b op = op\<lparr>hasChildDataSource := b\<rparr>"

text \<open>The body of the loop over the entries of \<open>results\<close>, for index \<open>i\<close>.\<close>

definition result_entry ::
  "('p, 'v, 'd, 's) libs \<Rightarrow> json \<Rightarrow> nat \<Rightarrow> ('p, 'd, 's) operator \<Rightarrow> fault + ('p, 'd, 's) operator" where
  "result_entry L resultsNode i op =
    (case resultAt i op of
       None \<Rightarrow> Inl AssertionFailed
     | Some oa \<Rightarrow>
        and_then (json_at resultsNode i) (\<lambda>entry.
        and_then (json_member entry ''name'') (\<lambda>nameValue.
        and_then
          (if \<not> isNull nameValue then
             and_then (asCString nameValue) (\<lambda>s.
               Inr ((result_setName i (fromCString L s) op)
                      \<lparr>m_resultNames := m_resultNames op @ [fromCString L s]\<rparr>))
           else Inr op) (\<lambda>op1.
        and_then (json_member entry ''label'') (\<lambda>labelValue.
          if \<not> isNull labelValue then
            and_then (asCString labelValue) (\<lambda>s.
              Inr (result_setLabel i (fromCString L s) op1))
          else Inr op1)))))"

fun result_entries ::
  "('p, 'v, 'd, 's) libs \<Rightarrow> json \<Rightarrow> nat list \<Rightarrow> ('p, 'd, 's) operator \<Rightarrow>
     fault + ('p, 'd, 's) operator" where
  "result_entries L resultsNode [] op = Inr op"
| "result_entries L resultsNode (i # rest) op =
    and_then (result_entry L resultsNode i op) (result_entries L resultsNode rest)"

text \<open>The part of \<open>setJSONDescription\<close> under the comment "Get the number of results".\<close>

definition parse_results ::
  "('p, 'v, 'd, 's) libs \<Rightarrow> json \<Rightarrow> ('p, 'd, 's) operator \<Rightarrow> fault + ('p, 'd, 's) operator" where
  "parse_results L root op =
    and_then (json_member root ''results'') (\<lambda>resultsNode.
      if \<not> isNull resultsNode then
        (let numResults = json_size resultsNode
         in result_entries L resultsNode [0..<numResults] (setNumberOfResults numResults op))
      else Inr op)"

text \<open>The part under the comment "Get child dataset information".\<close>

definition parse_children ::
  "('p, 'v, 'd, 's) libs \<Rightarrow> json \<Rightarrow> ('p, 'd, 's) operator \<Rightarrow> fault + ('p, 'd, 's) operator" where
  "parse_children L root op =
    and_then (json_member root ''children'') (\<lambda>childDatasetNode.
      if \<not> isNull childDatasetNode then
        (let size = json_size childDatasetNode;
             op1 = (if size \<noteq> 1
                    then qCritical [Text ''Only one child dataset is supported for now. Found'',
                                    Count size,
                                    Text '' but only the first will be used''] op
                    else op)
         in if size > 0 then
              (let op2 = setHasChildDataSource True op1
               in and_then (json_at childDatasetNode 0) (\<lambda>first.
                  and_then (json_member first ''name'') (\<lambda>nameValue.
                  and_then (json_member first ''label'') (\<lambda>labelValue.
                    if \<not> isNull nameValue \<and> \<not> isNull labelValue then
                      and_then (asCString nameValue) (\<lambda>n.
                      and_then (asCString labelValue) (\<lambda>l.
                        Inr (op2\<lparr>m_childDataSourceNamesAndLabels :=
                                   m_childDataSourceNamesAndLabels op2
                                   @ [(fromCString L n, fromCString L l)]\<rparr>)))
                    else if isNull nameValue then
                      Inr (qCritical [Text ''No name given for child DataSet''] op2)
                    else if isNull labelValue then
                      Inr (qCritical [Text ''No label given for child DataSet''] op2)
                    else Inr op2))))
            else Inr op1)
      else Inr op)"

text \<open>\<open>OperatorPython::setJSONDescription\<close>.\<close>

definition setJSONDescription ::
  "('p, 'v, 'd, 's) libs \<Rightarrow> qstring \<Rightarrow> ('p, 'd, 's) operator \<Rightarrow> fault + ('p, 'd, 's) operator" where
  "setJSONDescription L str op =
    (if jsonDescription op = str then Inr op
     else
       (let op1 = op\<lparr>jsonDescription := str\<rparr>
        in (case Json_parse L (c_str (toLatin1 str)) of
              None \<Rightarrow>
                Inr (qCritical [Quoted str]
                       (qCritical [Text ''Failed to parse operator JSON''] op1))
            | Some root \<Rightarrow>
               and_then (json_member root ''label'') (\<lambda>labelNode.
               and_then
                 (if \<not> isNull labelNode then
                    and_then (asCString labelNode) (\<lambda>s. Inr (setLabel (fromCString L s) op1))
                  else Inr op1) (\<lambda>op2.
               (let op3 = op2\<lparr>m_resultNames := [],
                               m_childDataSourceNamesAndLabels := []\<rparr>
                in and_then (parse_results L root op3) (parse_children L root)))))))"

section \<open>Running the transform\<close>

text \<open>
  \<open>GetPointerFromObject\<close> followed by \<open>vtkDataObject::SafeDownCast\<close>: the data
  object, if the Python object wraps one. The conversion enters the interpreter, and
  raises there when the object is not a VTK object.
\<close>

definition as_vtkDataObject :: "('p, 'v, 'd, 's) libs \<Rightarrow> 'p \<Rightarrow> 's \<Rightarrow> 'd option \<times> 's" where
  "as_vtkDataObject L obj s =
    (case GetPointerFromObject L obj ''vtkDataObject'' s of
       (None, s1) \<Rightarrow> (None, s1)
     | (Some vtkobject, s1) \<Rightarrow> (SafeDownCast L vtkobject, s1))"

text \<open>
  The loop over \<open>m_resultNames\<close>. The state is \<open>errorEncountered\<close> and the operator,
  with its output and the interpreter, which every lookup and every conversion
  enters.
\<close>

fun results_loop ::
  "('p, 'v, 'd, 's) libs \<Rightarrow> 'p \<Rightarrow> qstring list \<Rightarrow> bool \<times> ('p, 'd, 's) operator \<Rightarrow>
     bool \<times> ('p, 'd, 's) operator" where
  "results_loop L outputDict [] st = st"
| "results_loop L outputDict (resultName # rest) (errorEncountered, op) =
    (let name = c_str (toLatin1 resultName)
     in (case python_call (PyDict_GetItemString L outputDict name) op of
           (None, op1) \<Rightarrow>
             results_loop L outputDict rest
               (True,
                qCritical [Text ''No result named'', Quoted resultName,
                           Text (''defined in output dictionary.'' @ [CHR 0x0A])] op1)
         | (Some pyDataObject, op1) \<Rightarrow>
            (case python_call (as_vtkDataObject L pyDataObject) op1 of
               (Some dataObject, op2) \<Rightarrow>
                 results_loop L outputDict rest
                   (errorEncountered, emit (newOperatorResult resultName dataObject) op2)
             | (None, op2) \<Rightarrow>
                 results_loop L outputDict rest
                   (errorEncountered,
                    qCritical [Text (''Result named '' @ [CHR 0x27]), Text name,
                               Text ([CHR 0x27] @ '' is not a vtkDataObject'')] op2))))"

text \<open>The loop over \<open>m_childDataSourceNamesAndLabels\<close>.\<close>

fun children_loop ::
  "('p, 'v, 'd, 's) libs \<Rightarrow> 'p \<Rightarrow> (qstring \<times> qstring) list \<Rightarrow> bool \<times> ('p, 'd, 's) operator \<Rightarrow>
     bool \<times> ('p, 'd, 's) operator" where
  "children_loop L outputDict [] st = st"
| "children_loop L outputDict (nameLabelPair # rest) (errorEncountered, op) =
    (let name = fst nameLabelPair; label = snd nameLabelPair
     in (case python_call (PyDict_GetItemString L outputDict (c_str (toLatin1 name))) op of
           (None, op1) \<Rightarrow>
             children_loop L outputDict rest
               (True,
                qCritical [Text (''No child data source named '' @ [CHR 0x27]), Quoted name,
                           Text ([CHR 0x27] @ '' defined in output dictionary.'' @ [CHR 0x0A])]
                  op1)
         | (Some child, op1) \<Rightarrow>
            (case python_call (as_vtkDataObject L child) op1 of
               (Some childData, op2) \<Rightarrow>
                 children_loop L outputDict rest
                   (errorEncountered, emit (newChildDataSource label childData) op2)
             | (None, op2) \<Rightarrow>
                 children_loop L outputDict rest (errorEncountered, op2))))"

text \<open>
  The block under \<open>if (check)\<close>: the two loops, then the dictionary printed when a
  name was missing. \<open>PyString_AsString\<close> reads its argument, so a failed
  \<open>PyObject_Repr\<close> is a null dereference; when \<open>PyString_AsString\<close> itself returns
  null nothing is printed after the heading.
\<close>

definition read_dictionary ::
  "('p, 'v, 'd, 's) libs \<Rightarrow> 'p \<Rightarrow> ('p, 'd, 's) operator \<Rightarrow> fault + ('p, 'd, 's) operator" where
  "read_dictionary L outputDict op =
    (case children_loop L outputDict (m_childDataSourceNamesAndLabels op)
            (results_loop L outputDict (m_resultNames op) (False, op)) of
       (errorEncountered, op1) \<Rightarrow>
         (if errorEncountered then
            (case python_call (PyObject_Repr L outputDict) op1 of
               (None, op2) \<Rightarrow> Inl NullPointer
             | (Some objectRepr, op2) \<Rightarrow>
                (case python_call (PyString_AsString L objectRepr) op2 of
                   (None, op3) \<Rightarrow>
                     Inr (qCritical
                            [Text (''Dictionary return from Python script is:'' @ [CHR 0x0A])] op3)
                 | (Some objectReprString, op3) \<Rightarrow>
                     Inr (qCritical
                            [Text (''Dictionary return from Python script is:'' @ [CHR 0x0A]),
                             Text objectReprString] op3)))
          else Inr op1))"

text \<open>The last line, \<open>return CheckForError() == false\<close>.\<close>

definition return_CheckForError ::
  "('p, 'v, 'd, 's) libs \<Rightarrow> ('p, 'd, 's) operator \<Rightarrow> fault + bool \<times> ('p, 'd, 's) operator" where
  "return_CheckForError L op =
    (case CheckForError L op of (failed, op1) \<Rightarrow> Inr (failed = False, op1))"

text \<open>
  \<open>OperatorPython::applyTransform\<close>. The data object is \<open>None\<close> for a null pointer,
  which fails \<open>Q_ASSERT(data)\<close>.
\<close>

definition applyTransform ::
  "('p, 'v, 'd, 's) libs \<Rightarrow> 'd option \<Rightarrow> ('p, 'd, 's) operator \<Rightarrow>
     fault + bool \<times> ('p, 'd, 's) operator" where
  "applyTransform L data op =
    (if Script op = [] then Inr (True, op)
     else (case (OperatorModule op, TransformMethod op) of
             (None, _) \<Rightarrow> Inr (True, op)
           | (Some _, None) \<Rightarrow> Inr (True, op)
           | (Some _, Some method) \<Rightarrow>
              (case data of
                 None \<Rightarrow> Inl AssertionFailed
               | Some d \<Rightarrow>
                  (case python_call (GetObjectFromPointer L d) op of
                     (pydata, op1) \<Rightarrow>
                      (case python_call (PyObject_Call L method [pydata]) op1 of
                         (None, op2) \<Rightarrow>
                           Inr (False,
                                snd (CheckForError L
                                       (qCritical [Text ''Failed to execute the script.''] op2)))
                       | (Some outputDict, op2) \<Rightarrow>
                          (if PyDict_Check L outputDict
                           then and_then (read_dictionary L outputDict op2)
                                  (return_CheckForError L)
                           else return_CheckForError L op2))))))"

section \<open>Persistence\<close>

text \<open>
  A \<open>pugi::xml_node\<close> as far as the operator uses it: its attributes, in order.
  \<open>append_attribute\<close> adds one at the end, \<open>attribute\<close> finds the first of a name,
  and \<open>as_string\<close> of a missing attribute is the empty string.
\<close>

type_synonym xml_node = "(string \<times> string) list"

definition append_attribute :: "string \<Rightarrow> string \<Rightarrow> xml_node \<Rightarrow> xml_node" where
  "append_attribute a v ns = ns @ [(a, v)]"

definition attribute_as_string :: "xml_node \<Rightarrow> string \<Rightarrow> string" where
  "attribute_as_string ns a = (case map_of ns a of None \<Rightarrow> [] | Some v \<Rightarrow> v)"

definition serialize :: "('p, 'd, 's) operator \<Rightarrow> xml_node \<Rightarrow> bool \<times> xml_node" where
  "serialize op ns =
    (let ns1 = append_attribute ''label'' (c_str (toLatin1 (label op))) ns;
         ns2 = append_attribute ''script'' (c_str (toLatin1 (script op))) ns1
     in (True, ns2))"

definition deserialize ::
  "('p, 'v, 'd, 's) libs \<Rightarrow> xml_node \<Rightarrow> ('p, 'd, 's) operator \<Rightarrow>
     fault + bool \<times> ('p, 'd, 's) operator" where
  "deserialize L ns op =
    (let op1 = setLabel (fromCString L (attribute_as_string ns ''label'')) op
     in (case setScript L (fromCString L (attribute_as_string ns ''script'')) op1 of
           Inl e \<Rightarrow> Inl e
         | Inr op2 \<Rightarrow> Inr (True, op2)))"

section \<open>An interpreter for the examples\<close>

text \<open>
  A small stand-in for the libraries, on which the examples below are evaluated. It
  knows five scripts and five JSON documents; any other script text is a syntax
  error and any other document is malformed. Every VTK object is a data object,
  numbered.

  Its state is the table of the modules in which code was run, each with the names
  that it defines and, for every name, the script that defined it; and the error
  indicator. It follows CPython 3 in four points. \<open>PyImport_ExecCodeModule\<close> runs the
  code in the module of the given name when the table has one, so that the names
  which earlier code defined there stay defined. A function of the C API that returns
  null has set the error indicator, except \<open>PyDict_GetItemString\<close>: for a missing key
  it returns null and leaves the indicator as it is, and for a key that it cannot
  decode (here, one with a byte above \<open>0x7F\<close>) it returns null and clears the
  indicator. \<open>GetPointerFromObject\<close> raises a TypeError for an object that wraps no
  VTK object, except \<open>None\<close>. \<open>PyObject_Repr\<close> of a dictionary gives up, and returns
  null, when the error indicator is set.
\<close>

datatype pyobj =
    PyNone
  | PyTrue
  | PyFalse
  | PyInt int
  | PyStr string
  | PyCode string
  | PyModule string
  | PyFunction string
  | PyTransform string
  | PyCapsule
  | PyDict "(string \<times> pyobj) list"
  | PyVTK nat

record interpreter =
  sys_modules :: "(string \<times> (string \<times> string) list) list"
  pending :: bool

definition script_identity :: string where
  \<open>script_identity = ''def transform_scalars(dataset): return dataset''\<close>

definition script_empty_dict :: string where
  \<open>script_empty_dict = ''def transform_scalars(dataset): return {}''\<close>

definition script_hist :: string where
  \<open>script_hist = ''def transform_scalars(dataset): return {"hist": dataset}''\<close>

definition script_number :: string where
  \<open>script_number = ''def transform_scalars(dataset): return {"a": 5}''\<close>

definition script_no_entry :: string where
  \<open>script_no_entry = ''x = 1''\<close>

definition script_syntax_error :: string where
  \<open>script_syntax_error = ''def transform_scalars(:''\<close>

definition doc_hist :: string where
  \<open>doc_hist = ''{"results":[{"name":"hist","label":"Histogram"}]}''\<close>

definition doc_a_hist :: string where
  \<open>doc_a_hist = ''{"results":[{"name":"a","label":"A"},{"name":"hist"}]}''\<close>

definition doc_two_children :: string where
  \<open>doc_two_children =
    ''{"children":[{"name":"seg","label":"Segmentation"},{"name":"rec","label":"Rec"}]}''\<close>

definition doc_child_no_name :: string where
  \<open>doc_child_no_name = ''{"children":[{"label":"Segmentation"}]}''\<close>

definition doc_child_no_label :: string where
  \<open>doc_child_no_label = ''{"children":[{"name":"seg"}]}''\<close>

definition demo_parse :: "string \<Rightarrow> json option" where
  "demo_parse s =
    (if s = doc_hist then
       Some (JObject [(''results'',
               JArray [JObject [(''name'', JString ''hist''), (''label'', JString ''Histogram'')]])])
     else if s = doc_a_hist then
       Some (JObject [(''results'',
               JArray [JObject [(''name'', JString ''a''), (''label'', JString ''A'')],
                       JObject [(''name'', JString ''hist'')]])])
     else if s = doc_two_children then
       Some (JObject [(''children'',
               JArray [JObject [(''name'', JString ''seg''), (''label'', JString ''Segmentation'')],
                       JObject [(''name'', JString ''rec''), (''label'', JString ''Rec'')]])])
     else if s = doc_child_no_name then
       Some (JObject [(''children'', JArray [JObject [(''label'', JString ''Segmentation'')]])])
     else if s = doc_child_no_label then
       Some (JObject [(''children'', JArray [JObject [(''name'', JString ''seg'')]])])
     else None)"

text \<open>The interpreter before any code was run, and the interpreter after a call has
  raised.\<close>

definition demo_start :: interpreter where
  "demo_start = \<lparr>sys_modules = [], pending = False\<rparr>"

definition demo_raise :: "interpreter \<Rightarrow> interpreter" where
  "demo_raise s = s\<lparr>pending := True\<rparr>"

definition demo_clear :: "interpreter \<Rightarrow> interpreter" where
  "demo_clear s = s\<lparr>pending := False\<rparr>"

text \<open>The names that a module defines, and the names that running a script defines.\<close>

definition demo_globals :: "string \<Rightarrow> interpreter \<Rightarrow> (string \<times> string) list" where
  "demo_globals modname s =
    (case map_of (sys_modules s) modname of None \<Rightarrow> [] | Some names \<Rightarrow> names)"

definition demo_defines :: "string \<Rightarrow> string list" where
  "demo_defines src = (if src = script_no_entry then [''x''] else [''transform_scalars''])"

definition demo_compile :: "string \<Rightarrow> string \<Rightarrow> interpreter \<Rightarrow> pyobj option \<times> interpreter" where
  "demo_compile src filename s =
    (if src \<in> set [script_identity, script_empty_dict, script_hist, script_number,
                    script_no_entry]
     then (Some (PyCode src), s) else (None, demo_raise s))"

definition demo_exec :: "string \<Rightarrow> pyobj \<Rightarrow> interpreter \<Rightarrow> pyobj option \<times> interpreter" where
  "demo_exec modname code s =
    (case code of
       PyCode src \<Rightarrow>
         (Some (PyModule modname),
          s\<lparr>sys_modules :=
              (modname, map (\<lambda>n. (n, src)) (demo_defines src) @ demo_globals modname s)
              # filter (\<lambda>entry. fst entry \<noteq> modname) (sys_modules s)\<rparr>)
     | _ \<Rightarrow> (None, demo_raise s))"

definition demo_getattr :: "pyobj \<Rightarrow> string \<Rightarrow> interpreter \<Rightarrow> pyobj option \<times> interpreter" where
  "demo_getattr obj attr s =
    (case obj of
       PyModule modname \<Rightarrow>
         (if modname = ''tomviz._internal''
             \<and> (attr = ''is_cancelable'' \<or> attr = ''find_transform_scalars'')
          then (Some (PyFunction attr), s) else (None, demo_raise s))
     | _ \<Rightarrow> (None, demo_raise s))"

text \<open>\<open>find_transform_scalars\<close> looks the name \<open>transform_scalars\<close> up in the module
  and raises when the module does not define it; \<open>is_cancelable\<close> answers false.\<close>

definition demo_call :: "pyobj \<Rightarrow> pyobj list \<Rightarrow> interpreter \<Rightarrow> pyobj option \<times> interpreter" where
  "demo_call callable args s =
    (case callable of
       PyFunction f \<Rightarrow>
         (case args of
            [PyModule modname, arg] \<Rightarrow>
              (if f = ''find_transform_scalars'' then
                 (case map_of (demo_globals modname s) ''transform_scalars'' of
                    Some src \<Rightarrow> (Some (PyTransform src), s)
                  | None \<Rightarrow> (None, demo_raise s))
               else (None, demo_raise s))
          | [PyModule modname] \<Rightarrow>
              (if f = ''is_cancelable'' then (Some PyFalse, s) else (None, demo_raise s))
          | _ \<Rightarrow> (None, demo_raise s))
     | PyTransform src \<Rightarrow>
         (case args of
            [dataset] \<Rightarrow>
              (if src = script_identity then (Some dataset, s)
               else if src = script_empty_dict then (Some (PyDict []), s)
               else if src = script_hist then (Some (PyDict [(''hist'', dataset)]), s)
               else if src = script_number then (Some (PyDict [(''a'', PyInt 5)]), s)
               else (None, demo_raise s))
          | _ \<Rightarrow> (None, demo_raise s))
     | _ \<Rightarrow> (None, demo_raise s))"

fun demo_is_dict :: "pyobj \<Rightarrow> bool" where
  "demo_is_dict (PyDict items) = True"
| "demo_is_dict _ = False"

definition undecodable :: "string \<Rightarrow> bool" where
  "undecodable key = list_ex (\<lambda>c. 128 \<le> (of_char c :: nat)) key"

text \<open>What a dictionary holds under a key.\<close>

definition demo_item :: "pyobj \<Rightarrow> string \<Rightarrow> pyobj option" where
  "demo_item obj key =
    (case obj of
       PyDict items \<Rightarrow> (if undecodable key then None else map_of items key)
     | _ \<Rightarrow> None)"

definition demo_getitem :: "pyobj \<Rightarrow> string \<Rightarrow> interpreter \<Rightarrow> pyobj option \<times> interpreter" where
  "demo_getitem obj key s =
    (demo_item obj key, if undecodable key then demo_clear s else s)"

text \<open>The VTK object that a Python object wraps.\<close>

definition demo_wrapped :: "pyobj \<Rightarrow> nat option" where
  "demo_wrapped obj = (case obj of PyVTK n \<Rightarrow> Some n | _ \<Rightarrow> None)"

definition demo_pointer :: "pyobj \<Rightarrow> string \<Rightarrow> interpreter \<Rightarrow> nat option \<times> interpreter" where
  "demo_pointer obj cls s =
    (demo_wrapped obj,
     if demo_wrapped obj = None \<and> obj \<noteq> PyNone then demo_raise s else s)"

definition demo_repr :: "pyobj \<Rightarrow> interpreter \<Rightarrow> pyobj option \<times> interpreter" where
  "demo_repr obj s =
    (if pending s then (None, s)
     else if obj = PyDict [] then (Some (PyStr ''{}''), s)
     else (Some (PyStr ''{...}''), s))"

definition demo_as_string :: "pyobj \<Rightarrow> interpreter \<Rightarrow> string option \<times> interpreter" where
  "demo_as_string obj s =
    (case obj of PyStr chars \<Rightarrow> (Some chars, s) | _ \<Rightarrow> (None, demo_raise s))"

definition demo :: "(pyobj, nat, nat, interpreter) libs" where
  "demo =
    \<lparr>fromCString = QLit,
     Json_parse = demo_parse,
     PyImport_ImportModule = (\<lambda>modname s. (Some (PyModule modname), s)),
     PyObject_GetAttrString = demo_getattr,
     Py_CompileString = demo_compile,
     PyImport_ExecCodeModule = demo_exec,
     PyObject_Call = demo_call,
     capsule = PyCapsule,
     Py_True = PyTrue,
     GetObjectFromPointer = (\<lambda>d s. (PyVTK d, s)),
     PyDict_Check = demo_is_dict,
     PyDict_GetItemString = demo_getitem,
     GetPointerFromObject = demo_pointer,
     SafeDownCast = Some,
     PyObject_Repr = demo_repr,
     PyString_AsString = demo_as_string,
     PyErr_Occurred = pending,
     PyErr_Print = demo_clear,
     PyErr_Clear = demo_clear\<rparr>"

text \<open>The operator that the constructor builds on this interpreter, and the operator
  after \<open>setScript\<close> has bound one of the scripts with an entry point to it.\<close>

definition fresh_operator :: "(pyobj, nat, interpreter) operator" where
  "fresh_operator =
    \<lparr>OperatorModule = Some (PyModule ''tomviz.utils''), Code = None,
     TransformModule = None, TransformMethod = None,
     InternalModule = Some (PyModule ''tomviz._internal''),
     FindTransformScalarsFunction = Some (PyFunction ''find_transform_scalars''),
     IsCancelableFunction = Some (PyFunction ''is_cancelable''),
     Label = QLit ''Python Operator'', Script = [], jsonDescription = [],
     m_resultNames = [], m_childDataSourceNamesAndLabels = [],
     supportsCancel = False, hasChildDataSource = False, m_results = [],
     emitted = [], python = demo_start\<rparr>"

definition bound_operator :: "string \<Rightarrow> (pyobj, nat, interpreter) operator" where
  "bound_operator src =
    fresh_operator\<lparr>Script := QLit src, Code := Some (PyCode src),
      TransformModule := Some (PyModule ''tomviz_Python Operator''),
      TransformMethod := Some (PyTransform src), emitted := [transformModified],
      python := \<lparr>sys_modules = [(''tomviz_Python Operator'', [(''transform_scalars'', src)])],
                 pending = False\<rparr>\<rparr>"

text \<open>The operator bound to the histogram script after the script with the syntax error
  was offered to it.\<close>

definition rejected_operator :: "(pyobj, nat, interpreter) operator" where
  "rejected_operator =
    (bound_operator script_hist)\<lparr>Script := QLit script_syntax_error,
      Code := None, TransformModule := None, TransformMethod := None,
      emitted := [transformModified, Traceback,
        Critical [Text ''Invalid script. Please check the traceback message for details'']]\<rparr>"

text \<open>The operator after the script without the entry point was set on the fresh
  operator, and after it was set on the operator bound to the histogram script.\<close>

definition unbound_operator :: "(pyobj, nat, interpreter) operator" where
  "unbound_operator =
    fresh_operator\<lparr>Script := QLit script_no_entry, Code := Some (PyCode script_no_entry),
      TransformModule := Some (PyModule ''tomviz_Python Operator''),
      emitted := [Critical [Text ''Script doesn't have any 'transform_scalars' function.''],
                  Traceback],
      python := \<lparr>sys_modules = [(''tomviz_Python Operator'', [(''x'', script_no_entry)])],
                 pending = False\<rparr>\<rparr>"

definition stale_operator :: "(pyobj, nat, interpreter) operator" where
  "stale_operator =
    (bound_operator script_hist)\<lparr>Script := QLit script_no_entry,
      Code := Some (PyCode script_no_entry),
      emitted := [transformModified, transformModified],
      python := \<lparr>sys_modules = [(''tomviz_Python Operator'',
                                  [(''x'', script_no_entry),
                                   (''transform_scalars'', script_hist)])],
                 pending = False\<rparr>\<rparr>"


text \<open>The fresh operator after the document with two children, and after the document
  whose only child has no name.\<close>

definition two_children_operator :: "(pyobj, nat, interpreter) operator" where
  "two_children_operator =
    fresh_operator
      \<lparr>jsonDescription := QLit doc_two_children,
       m_childDataSourceNamesAndLabels := [(QLit ''seg'', QLit ''Segmentation'')],
       hasChildDataSource := True,
       emitted := [Critical [Text ''Only one child dataset is supported for now. Found'',
                             Count 2, Text '' but only the first will be used'']]\<rparr>"

definition nameless_child_operator :: "(pyobj, nat, interpreter) operator" where
  "nameless_child_operator =
    fresh_operator
      \<lparr>jsonDescription := QLit doc_child_no_name,
       hasChildDataSource := True,
       emitted := [Critical [Text ''No name given for child DataSet'']]\<rparr>"

section \<open>Notions used in the statements\<close>

text \<open>Text made of the ASCII characters U+0001 to U+007F.\<close>

definition ascii_text :: "qstring \<Rightarrow> bool" where
  "ascii_text s = list_all (\<lambda>c. 0 < unat c \<and> unat c < 128) s"

text \<open>What the operator has written and emitted since it was in the state \<open>op\<close>.\<close>

definition output_since :: "('p, 'd, 's) operator \<Rightarrow> ('p, 'd, 's) operator \<Rightarrow> 'd event list" where
  "output_since op op' = drop (length (emitted op)) (emitted op')"


definition only_one_child :: "nat \<Rightarrow> 'd event" where
  "only_one_child n =
    Critical [Text ''Only one child dataset is supported for now. Found'', Count n,
              Text '' but only the first will be used'']"

text \<open>
  The text of a member of a JSON value, when the member is a string; the Result slot
  that an entry of \<open>results\<close> describes, a half without text left empty; the pair
  that an entry of \<open>children\<close> describes, when it has both a name and a label.
\<close>

definition member_text :: "('p, 'v, 'd, 's) libs \<Rightarrow> json \<Rightarrow> string \<Rightarrow> qstring option" where
  "member_text L e key =
    (case json_member e key of
       Inr (JString s) \<Rightarrow> Some (fromCString L (c_str s))
     | _ \<Rightarrow> None)"

definition slot_of_entry :: "('p, 'v, 'd, 's) libs \<Rightarrow> json \<Rightarrow> operator_result" where
  "slot_of_entry L e =
    \<lparr>result_name = (case member_text L e ''name'' of Some s \<Rightarrow> s | None \<Rightarrow> []),
     result_label = (case member_text L e ''label'' of Some s \<Rightarrow> s | None \<Rightarrow> [])\<rparr>"

definition child_pair :: "('p, 'v, 'd, 's) libs \<Rightarrow> json \<Rightarrow> (qstring \<times> qstring) list" where
  "child_pair L c =
    (case member_text L c ''name'' of
       None \<Rightarrow> []
     | Some n \<Rightarrow> (case member_text L c ''label'' of None \<Rightarrow> [] | Some l \<Rightarrow> [(n, l)]))"

text \<open>
  A descriptor on which no accessor of the JSON library fails: the label is absent or
  a string; \<open>results\<close> is absent or an array of entries that are null or objects
  whose name and label are absent or strings; \<open>children\<close> is absent or an array
  whose first entry, if any, is null or an object whose name and label are strings
  unless one of them is absent.
\<close>

fun text_or_null :: "json \<Rightarrow> bool" where
  "text_or_null JNull = True"
| "text_or_null (JString s) = True"
| "text_or_null _ = False"

definition wf_entry :: "json \<Rightarrow> bool" where
  "wf_entry e =
    (case json_member e ''name'' of
       Inl _ \<Rightarrow> False
     | Inr n \<Rightarrow>
        text_or_null n \<and>
        (case json_member e ''label'' of Inl _ \<Rightarrow> False | Inr l \<Rightarrow> text_or_null l))"

definition wf_child :: "json \<Rightarrow> bool" where
  "wf_child c =
    (case json_member c ''name'' of
       Inl _ \<Rightarrow> False
     | Inr n \<Rightarrow>
        (case json_member c ''label'' of
           Inl _ \<Rightarrow> False
         | Inr l \<Rightarrow> isNull n \<or> isNull l \<or> (text_or_null n \<and> text_or_null l)))"

definition wf_descriptor :: "json \<Rightarrow> bool" where
  "wf_descriptor root =
    ((case json_member root ''label'' of Inl _ \<Rightarrow> False | Inr v \<Rightarrow> text_or_null v)
     \<and> (case json_member root ''results'' of
           Inr JNull \<Rightarrow> True
         | Inr (JArray es) \<Rightarrow> list_all wf_entry es
         | _ \<Rightarrow> False)
     \<and> (case json_member root ''children'' of
           Inr JNull \<Rightarrow> True
         | Inr (JArray []) \<Rightarrow> True
         | Inr (JArray (c # cs)) \<Rightarrow> wf_child c
         | _ \<Rightarrow> False))"

section \<open>Notions used in the proofs\<close>



text \<open>A Result slot after the loop body has run for an entry, and the names that the
  entry adds to \<open>m_resultNames\<close>.\<close>

definition apply_entry :: "('p, 'v, 'd, 's) libs \<Rightarrow> json \<Rightarrow> operator_result \<Rightarrow> operator_result" where
  "apply_entry L e slot =
    \<lparr>result_name = (case member_text L e ''name'' of Some s \<Rightarrow> s | None \<Rightarrow> result_name slot),
     result_label = (case member_text L e ''label'' of Some s \<Rightarrow> s | None \<Rightarrow> result_label slot)\<rparr>"

definition entry_names :: "('p, 'v, 'd, 's) libs \<Rightarrow> json \<Rightarrow> qstring list" where
  "entry_names L e = (case member_text L e ''name'' of Some s \<Rightarrow> [s] | None \<Rightarrow> [])"

text \<open>The line about the first child that lacks a name or a label.\<close>

definition child_complaint :: "json \<Rightarrow> 'd event list" where
  "child_complaint c =
    (if json_member c ''name'' = Inr JNull
     then [Critical [Text ''No name given for child DataSet'']]
     else if json_member c ''label'' = Inr JNull
     then [Critical [Text ''No label given for child DataSet'']]
     else [])"

text \<open>The operator when \<open>setJSONDescription\<close> has stored the text, set the label that
  the document gives and cleared the two lists.\<close>

definition labelled ::
  "('p, 'v, 'd, 's) libs \<Rightarrow> qstring \<Rightarrow> json \<Rightarrow> ('p, 'd, 's) operator \<Rightarrow>
     ('p, 'd, 's) operator" where
  "labelled L str v op =
    (case v of
       JString s \<Rightarrow> setLabel (fromCString L (c_str s)) (op\<lparr>jsonDescription := str\<rparr>)
     | _ \<Rightarrow> op\<lparr>jsonDescription := str\<rparr>)
    \<lparr>m_resultNames := [], m_childDataSourceNamesAndLabels := []\<rparr>"

text \<open>Two states of the operator with the same Result slots, result names and
  description text.\<close>

definition same_results :: "('p, 'd, 's) operator \<Rightarrow> ('p, 'd, 's) operator \<Rightarrow> bool" where
  "same_results op op' \<longleftrightarrow>
     m_results op' = m_results op \<and> m_resultNames op' = m_resultNames op
     \<and> jsonDescription op' = jsonDescription op"

section \<open>Facts about strings\<close>

lemma unat_of_char: "unat (of_char c :: 16 word) = of_char c"
proof -
  have "(of_char c :: 16 word) = of_nat (of_char c)" by (simp add: of_nat_of_char)
  then have "unat (of_char c :: 16 word) = (of_char c :: nat) mod 2 ^ 16"
    by (simp add: unat_of_nat)
  moreover have "(of_char c :: nat) < 256" by simp
  ultimately show ?thesis by simp
qed

lemma toLatin1_QLit: "toLatin1 (QLit s) = s"
  by (induction s) (simp_all add: toLatin1_def QLit_def unat_of_char)

lemma QLit_eq_iff: "QLit a = QLit b \<longleftrightarrow> a = b"
  by (metis toLatin1_QLit)

lemma QLit_append: "QLit a @ QLit b = QLit (a @ b)"
  by (simp add: QLit_def)

lemma QLit_Nil_iff: "QLit s = [] \<longleftrightarrow> s = []" "[] = QLit s \<longleftrightarrow> s = []"
  by (auto simp: QLit_def)

lemma c_str_no_NUL: "CHR 0x00 \<notin> set s \<Longrightarrow> c_str s = s"
  by (auto simp: c_str_def)

section \<open>The example interpreter at work\<close>

lemmas scripts = script_identity_def script_empty_dict_def script_hist_def script_number_def
  script_no_entry_def script_syntax_error_def

lemmas demo_steps = demo_def demo_compile_def demo_exec_def demo_call_def demo_getattr_def
  demo_globals_def demo_defines_def demo_raise_def demo_clear_def demo_start_def
  python_call_def CheckForError_def qCritical_def emit_def setSupportsCancel_def label_def

lemma fresh_operator_constructed: "OperatorPython demo demo_start = Inr fresh_operator"
  by (simp add: OperatorPython_def demo_steps fresh_operator_def)

lemma demo_compiles:
  "src \<in> {script_identity, script_empty_dict, script_hist, script_number} \<Longrightarrow>
   setScript demo (QLit src) fresh_operator = Inr (bound_operator src)"
  by (auto simp add: setScript_def demo_steps fresh_operator_def bound_operator_def
       toLatin1_QLit QLit_append QLit_Nil_iff c_str_def scripts)

lemma demo_syntax_error:
  "fst (Py_CompileString demo (c_str (toLatin1 (QLit script_syntax_error))) file s) = None"
  by (simp add: demo_def toLatin1_QLit c_str_def demo_compile_def scripts)

lemma bound_operator_Script: "Script (bound_operator src) = QLit src"
  by (simp add: bound_operator_def)

lemma bound_operator_not_syntax_error:
  "Script (bound_operator script_hist) \<noteq> QLit script_syntax_error"
  by (simp add: bound_operator_Script QLit_eq_iff scripts)

lemma fresh_operator_not_syntax_error:
  "Script fresh_operator \<noteq> QLit script_syntax_error"
  by (simp add: fresh_operator_def QLit_Nil_iff scripts)

section \<open>Properties of setScript\<close>

text \<open>\<open>CheckForError\<close> and \<open>qCritical\<close> change the output and the interpreter only.\<close>

lemma CheckForError_fields:
  "Code (snd (CheckForError L x)) = Code x"
  "TransformModule (snd (CheckForError L x)) = TransformModule x"
  "TransformMethod (snd (CheckForError L x)) = TransformMethod x"
  "OperatorModule (snd (CheckForError L x)) = OperatorModule x"
  "supportsCancel (snd (CheckForError L x)) = supportsCancel x"
  "Script (snd (CheckForError L x)) = Script x"
  "Label (snd (CheckForError L x)) = Label x"
  by (simp_all add: CheckForError_def emit_def)

lemma qCritical_fields:
  "Code (qCritical m x) = Code x"
  "TransformModule (qCritical m x) = TransformModule x"
  "TransformMethod (qCritical m x) = TransformMethod x"
  "OperatorModule (qCritical m x) = OperatorModule x"
  "supportsCancel (qCritical m x) = supportsCancel x"
  "Script (qCritical m x) = Script x"
  "Label (qCritical m x) = Label x"
  "python (qCritical m x) = python x"
  by (simp_all add: qCritical_def)

lemma emit_fields:
  "Script (emit e x) = Script x"
  "Label (emit e x) = Label x"
  by (simp_all add: emit_def)

lemma setScript_same_text: "Script op = str \<Longrightarrow> setScript L str op = Inr op"
  by (simp add: setScript_def)

lemma setScript_compile_error:
  assumes "Script op \<noteq> t"
    and "fst (Py_CompileString L (c_str (toLatin1 t)) (c_str (toLatin1 (label op))) (python op))
           = None"
  shows "setScript L t op =
           Inr (qCritical [Text ''Invalid script. Please check the traceback message for details'']
                  (snd (CheckForError L
                     (op\<lparr>Script := t, TransformModule := None, TransformMethod := None,
                         python := snd (Py_CompileString L (c_str (toLatin1 t))
                                          (c_str (toLatin1 (label op))) (python op)),
                         Code := None\<rparr>))))"
  using assms
  by (simp add: setScript_def label_def python_call_def case_prod_beta)

text \<open>What \<open>setScript\<close> does when the lookup of the entry point returns null.\<close>

lemma setScript_no_entry_point:
  assumes "Script op \<noteq> t"
    and "Py_CompileString L (c_str (toLatin1 t)) (c_str (toLatin1 (label op))) (python op)
           = (Some code, s1)"
    and "PyImport_ExecCodeModule L (c_str (toLatin1 (QLit ''tomviz_'' @ label op))) code s1
           = (Some m, s2)"
    and "FindTransformScalarsFunction op = Some f"
    and "PyObject_Call L f [m, capsule L] s2 = (None, s3)"
  shows "setScript L t op =
           Inr (snd (CheckForError L
                  (qCritical [Text ''Script doesn't have any 'transform_scalars' function.'']
                     (op\<lparr>Script := t, Code := Some code, TransformModule := Some m,
                         python := s3, TransformMethod := None\<rparr>))))"
  using assms
  by (simp add: setScript_def label_def python_call_def)

lemma setScript_Script: "setScript L t op = Inr op' \<Longrightarrow> Script op' = t"
  unfolding setScript_def Let_def python_call_def case_prod_beta
  by (simp split: if_splits option.splits)
     (auto simp add: CheckForError_fields qCritical_fields emit_fields setSupportsCancel_def)

lemma setScript_Label: "setScript L t op = Inr op' \<Longrightarrow> Label op' = Label op"
  unfolding setScript_def Let_def python_call_def case_prod_beta
  by (simp split: if_splits option.splits)
     (auto simp add: CheckForError_fields qCritical_fields emit_fields setSupportsCancel_def)

lemma setScript_returns:
  assumes "FindTransformScalarsFunction op = Some f" and "IsCancelableFunction op = Some g"
  shows "\<exists>op'. setScript L t op = Inr op'"
  using assms unfolding setScript_def Let_def python_call_def case_prod_beta
  by (simp split: option.splits)

lemma rejected_operator_reached:
  "setScript demo (QLit script_syntax_error) (bound_operator script_hist) = Inr rejected_operator"
  by (simp add: setScript_compile_error [OF bound_operator_not_syntax_error demo_syntax_error]
        rejected_operator_def)
    (simp add: bound_operator_def fresh_operator_def demo_steps toLatin1_QLit c_str_def scripts)

lemma applyTransform_nothing_bound:
  "Script op = [] \<or> OperatorModule op = None \<or> TransformMethod op = None \<Longrightarrow>
   applyTransform L data op = Inr (True, op)"
  by (auto simp: applyTransform_def split: option.splits)

subsection \<open>A script that does not compile\<close>

text \<open>
  C1, as stated, fails. The operator bound to the histogram script holds a code
  object, a module and a transform method; the script with the syntax error does not
  compile; after \<open>setScript\<close> with it the three are null: the Compiled Script that was
  valid before the call is not left in place.
\<close>

theorem setScript_keeps_compiled_script_counterexample:
  "setScript demo (QLit script_hist) fresh_operator = Inr (bound_operator script_hist)
   \<and> Code (bound_operator script_hist) = Some (PyCode script_hist)
   \<and> TransformModule (bound_operator script_hist) = Some (PyModule ''tomviz_Python Operator'')
   \<and> TransformMethod (bound_operator script_hist) = Some (PyTransform script_hist)
   \<and> fst (Py_CompileString demo (c_str (toLatin1 (QLit script_syntax_error)))
            (c_str (toLatin1 (label (bound_operator script_hist))))
            (python (bound_operator script_hist))) = None
   \<and> setScript demo (QLit script_syntax_error) (bound_operator script_hist)
       = Inr rejected_operator
   \<and> Code rejected_operator = None
   \<and> TransformModule rejected_operator = None
   \<and> TransformMethod rejected_operator = None"
proof -
  have "Code (bound_operator script_hist) = Some (PyCode script_hist)"
    and "TransformModule (bound_operator script_hist) = Some (PyModule ''tomviz_Python Operator'')"
    and "TransformMethod (bound_operator script_hist) = Some (PyTransform script_hist)"
    by (simp_all add: bound_operator_def)
  moreover have "Code rejected_operator = None" and "TransformModule rejected_operator = None"
    and "TransformMethod rejected_operator = None"
    by (simp_all add: rejected_operator_def)
  ultimately show ?thesis
    by (simp add: demo_compiles demo_syntax_error rejected_operator_reached)
qed

text \<open>
  C1, amended. For every script text that fails to compile: when it differs from the
  operator's current text, \<open>setScript\<close> returns normally and leaves the operator
  unbound, with no code object, module or transform method, whether or not a valid
  Compiled Script was bound before, and with \<open>supportsCancel\<close> as it was; when it
  is the current text, the call changes nothing. No failure occurs in either case.
\<close>

theorem setScript_compile_error_unbinds:
  assumes "fst (Py_CompileString L (c_str (toLatin1 t)) (c_str (toLatin1 (label op)))
                  (python op)) = None"
  shows "(Script op \<noteq> t \<longrightarrow>
            (\<exists>op'. setScript L t op = Inr op' \<and> Code op' = None \<and> TransformModule op' = None
                   \<and> TransformMethod op' = None \<and> supportsCancel op' = supportsCancel op))
         \<and> (Script op = t \<longrightarrow> setScript L t op = Inr op)"
  using assms
  by (simp add: setScript_compile_error setScript_same_text CheckForError_fields qCritical_fields)

theorem setScript_compile_error_unbinds_witness:
  "Script (bound_operator script_hist) \<noteq> QLit script_syntax_error
   \<and> (\<exists>op'. setScript demo (QLit script_syntax_error) (bound_operator script_hist) = Inr op'
          \<and> Code op' = None \<and> TransformModule op' = None \<and> TransformMethod op' = None
          \<and> supportsCancel op' = supportsCancel (bound_operator script_hist))
   \<and> Script rejected_operator = QLit script_syntax_error
   \<and> setScript demo (QLit script_syntax_error) rejected_operator = Inr rejected_operator"
proof -
  have same: "Script rejected_operator = QLit script_syntax_error"
    by (simp add: rejected_operator_def)
  have fails: "fst (Py_CompileString demo (c_str (toLatin1 (QLit script_syntax_error)))
                      (c_str (toLatin1 (label rejected_operator))) (python rejected_operator))
                 = None"
    by (rule demo_syntax_error)
  show ?thesis
    using setScript_compile_error_unbinds
            [of demo "QLit script_syntax_error" "bound_operator script_hist"]
          setScript_compile_error_unbinds [OF fails]
    by (simp add: demo_syntax_error bound_operator_not_syntax_error same)
qed

text \<open>
  C10. For every new script text that fails to compile, \<open>setScript\<close> has stored the
  text before the compiler saw it: after the call \<open>script()\<close> returns the text, no
  Compiled Script is bound, and \<open>serialize()\<close> writes as the script attribute the
  very bytes that the compiler rejected.
\<close>

theorem setScript_compile_error_stores_text:
  assumes "Script op \<noteq> t"
    and "fst (Py_CompileString L (c_str (toLatin1 t)) (c_str (toLatin1 (label op))) (python op))
           = None"
  shows "\<exists>op'. setScript L t op = Inr op' \<and> script op' = t
            \<and> Code op' = None \<and> TransformModule op' = None \<and> TransformMethod op' = None
            \<and> serialize op' ns =
                 (True, ns @ [(''label'', c_str (toLatin1 (label op))),
                              (''script'', c_str (toLatin1 t))])"
  using assms
  by (simp add: setScript_compile_error script_def label_def serialize_def append_attribute_def
        CheckForError_fields qCritical_fields)

theorem setScript_compile_error_stores_text_witness:
  "Script fresh_operator \<noteq> QLit script_syntax_error
   \<and> (\<exists>op'. setScript demo (QLit script_syntax_error) fresh_operator = Inr op'
          \<and> script op' = QLit script_syntax_error
          \<and> Code op' = None \<and> TransformModule op' = None \<and> TransformMethod op' = None
          \<and> serialize op' [] =
               (True, [(''label'', ''Python Operator''), (''script'', script_syntax_error)]))"
proof -
  have src_eq: "c_str (toLatin1 (QLit script_syntax_error)) = script_syntax_error"
    by (simp add: toLatin1_QLit c_str_def scripts)
  have lab: "c_str (toLatin1 (label fresh_operator)) = ''Python Operator''"
    by (simp add: label_def fresh_operator_def toLatin1_QLit c_str_def)
  have fails: "fst (Py_CompileString demo script_syntax_error ''Python Operator''
                      (python fresh_operator)) = None"
    using demo_syntax_error [of "''Python Operator''" "python fresh_operator"]
    by (simp add: src_eq)
  show ?thesis
    using setScript_compile_error_stores_text
            [of fresh_operator "QLit script_syntax_error" demo "[]"]
    by (simp add: fails fresh_operator_not_syntax_error src_eq lab)
qed

subsection \<open>A script without the entry point\<close>

lemma unbound_operator_reached:
  "setScript demo (QLit script_no_entry) fresh_operator = Inr unbound_operator"
  by (simp add: setScript_def demo_steps fresh_operator_def unbound_operator_def
       toLatin1_QLit QLit_append QLit_Nil_iff c_str_def scripts)

lemma stale_operator_reached:
  "setScript demo (QLit script_no_entry) (bound_operator script_hist) = Inr stale_operator"
  by (simp add: setScript_def demo_steps fresh_operator_def bound_operator_def stale_operator_def
       toLatin1_QLit QLit_append QLit_eq_iff c_str_def scripts)

text \<open>
  C8 does not hold of the code. The script \<open>x = 1\<close> compiles and does not define the
  entry point. Set on a fresh operator, it fails at binding, with the message about
  the missing function. Set on an operator that is bound to the histogram script, it
  is run in the module of the same name, which the label alone determines and in
  which \<open>transform_scalars\<close> is still defined: the lookup finds the function of the
  histogram script, \<open>setScript\<close> binds it, prints nothing, calls
  \<open>setSupportsCancel\<close> and emits \<open>transformModified\<close>.
\<close>

theorem setScript_stale_entry_point:
  "setScript demo (QLit script_hist) fresh_operator = Inr (bound_operator script_hist)
   \<and> ''transform_scalars'' \<notin> set (demo_defines script_no_entry)
   \<and> setScript demo (QLit script_no_entry) (bound_operator script_hist) = Inr stale_operator
   \<and> Script stale_operator = QLit script_no_entry
   \<and> TransformMethod stale_operator = Some (PyTransform script_hist)
   \<and> output_since (bound_operator script_hist) stale_operator = [transformModified]
   \<and> setScript demo (QLit script_no_entry) fresh_operator = Inr unbound_operator
   \<and> TransformMethod unbound_operator = None
   \<and> output_since fresh_operator unbound_operator
       = [Critical [Text ''Script doesn't have any 'transform_scalars' function.''], Traceback]"
proof -
  have "''transform_scalars'' \<notin> set (demo_defines script_no_entry)"
    by (simp add: demo_defines_def)
  moreover have "Script stale_operator = QLit script_no_entry"
    and "TransformMethod stale_operator = Some (PyTransform script_hist)"
    and "output_since (bound_operator script_hist) stale_operator = [transformModified]"
    by (simp_all add: stale_operator_def bound_operator_def output_since_def)
  moreover have "TransformMethod unbound_operator = None"
    and "output_since fresh_operator unbound_operator
       = [Critical [Text ''Script doesn't have any 'transform_scalars' function.''], Traceback]"
    by (simp_all add: unbound_operator_def fresh_operator_def output_since_def)
  ultimately show ?thesis
    by (simp add: demo_compiles stale_operator_reached unbound_operator_reached)
qed

subsection \<open>The same text twice\<close>

text \<open>
  C5. Calling \<open>setScript\<close> twice in succession with the same text does the work once:
  the second call returns the operator as the first call left it, output included,
  so it compiles nothing, imports nothing, looks nothing up and notifies nobody;
  this holds whatever the interpreter would answer at the second call.
\<close>

theorem setScript_twice:
  assumes "setScript L t op = Inr op1"
  shows "setScript L' t op1 = Inr op1"
  using setScript_Script [OF assms] by (rule setScript_same_text)

theorem setScript_twice_witness:
  "setScript demo (QLit script_hist) fresh_operator = Inr (bound_operator script_hist)
   \<and> setScript demo (QLit script_hist) (bound_operator script_hist)
       = Inr (bound_operator script_hist)"
  using setScript_twice [of demo "QLit script_hist" fresh_operator "bound_operator script_hist" demo]
  by (simp add: demo_compiles)

subsection \<open>Running the transform when nothing is bound\<close>

text \<open>
  C2, as stated, fails. The histogram script was set successfully; then the script
  with the syntax error, which is not empty, was offered and rejected, so that no
  transform method is bound; \<open>applyTransform\<close> then returns true and writes nothing.
\<close>

theorem applyTransform_after_compile_error_counterexample:
  "setScript demo (QLit script_hist) fresh_operator = Inr (bound_operator script_hist)
   \<and> setScript demo (QLit script_syntax_error) (bound_operator script_hist)
       = Inr rejected_operator
   \<and> Script rejected_operator = QLit script_syntax_error
   \<and> script_syntax_error \<noteq> []
   \<and> TransformMethod rejected_operator = None
   \<and> applyTransform demo (Some 7) rejected_operator = Inr (True, rejected_operator)"
proof -
  have unbound: "TransformMethod rejected_operator = None"
    by (simp add: rejected_operator_def)
  have stored: "Script rejected_operator = QLit script_syntax_error"
    by (simp add: rejected_operator_def)
  have nonempty: "script_syntax_error \<noteq> []"
    by (simp add: scripts)
  have "applyTransform demo (Some 7) rejected_operator = Inr (True, rejected_operator)"
    by (rule applyTransform_nothing_bound) (simp add: unbound)
  then show ?thesis
    by (simp add: demo_compiles rejected_operator_reached unbound stored nonempty)
qed

text \<open>
  C2, amended. After \<open>setScript\<close> with a new script text that fails to compile, no
  Compiled Script is bound and a subsequent \<open>applyTransform\<close> returns true without
  calling anything and without any output, whatever the data and whether or not a
  script was set successfully before: the guard on a null transform method takes the
  same path as the one on an empty script text.
\<close>

theorem applyTransform_after_compile_error:
  assumes "Script op \<noteq> t"
    and "fst (Py_CompileString L (c_str (toLatin1 t)) (c_str (toLatin1 (label op))) (python op))
           = None"
  shows "\<exists>op'. setScript L t op = Inr op' \<and> Code op' = None \<and> TransformMethod op' = None
            \<and> applyTransform L' data op' = Inr (True, op')"
  by (simp add: setScript_compile_error [OF assms] applyTransform_nothing_bound
        CheckForError_fields qCritical_fields)

theorem applyTransform_after_compile_error_witness:
  "\<exists>op'. setScript demo (QLit script_syntax_error) fresh_operator = Inr op' \<and> Code op' = None
       \<and> TransformMethod op' = None \<and> applyTransform demo (Some 7) op' = Inr (True, op')"
  by (rule applyTransform_after_compile_error
             [OF fresh_operator_not_syntax_error demo_syntax_error])

section \<open>Properties of serialize and deserialize\<close>

lemma attribute_after_serialize:
  assumes "map_of ns ''label'' = None" and "map_of ns ''script'' = None"
  shows "attribute_as_string (snd (serialize x ns)) ''label'' = c_str (toLatin1 (label x))"
    and "attribute_as_string (snd (serialize x ns)) ''script'' = c_str (toLatin1 (script x))"
  using assms
  by (simp_all add: serialize_def append_attribute_def attribute_as_string_def map_add_def
        split: option.splits)

lemma deserialize_result:
  assumes "FindTransformScalarsFunction y = Some f" and "IsCancelableFunction y = Some g"
  shows "\<exists>y'. deserialize L ns y = Inr (True, y')
            \<and> label y' = fromCString L (attribute_as_string ns ''label'')
            \<and> script y' = fromCString L (attribute_as_string ns ''script'')"
proof -
  let ?y1 = "setLabel (fromCString L (attribute_as_string ns ''label'')) y"
  have bound: "FindTransformScalarsFunction ?y1 = Some f" "IsCancelableFunction ?y1 = Some g"
    using assms by (simp_all add: setLabel_def emit_def)
  obtain y' where
    y': "setScript L (fromCString L (attribute_as_string ns ''script'')) ?y1 = Inr y'"
    using setScript_returns [OF bound, of L "fromCString L (attribute_as_string ns ''script'')"]
    by (elim exE)
  have "Label y' = fromCString L (attribute_as_string ns ''label'')"
    using setScript_Label [OF y'] by (simp add: setLabel_def emit_def)
  moreover have "Script y' = fromCString L (attribute_as_string ns ''script'')"
    by (rule setScript_Script [OF y'])
  ultimately show ?thesis
    using y' by (simp add: deserialize_def label_def script_def)
qed

lemma ascii_toLatin1: "ascii_text s \<Longrightarrow> QLit (c_str (toLatin1 s)) = s"
proof (induction s)
  case Nil
  then show ?case by (simp add: c_str_def toLatin1_def QLit_def)
next
  case (Cons c s)
  then have c: "0 < unat c" "unat c < 128" and s: "ascii_text s"
    by (simp_all add: ascii_text_def)
  have "char_of (unat c) \<noteq> CHR 0x00"
    using c by (simp add: char_of_eq_iff take_bit_eq_mod)
  moreover have "(of_char (char_of (unat c)) :: 16 word) = c"
    using c by (simp add: word_unat_eq_iff unat_of_char)
  ultimately show ?case
    using c Cons.IH [OF s] by (simp add: c_str_def toLatin1_def QLit_def)
qed

lemma ascii_text_QLit:
  "list_all (\<lambda>c. 0 < (of_char c :: nat) \<and> (of_char c :: nat) < 128) s \<Longrightarrow> ascii_text (QLit s)"
  by (induction s) (simp_all add: ascii_text_def QLit_def unat_of_char)

text \<open>
  C9, as stated, fails. The label of the operator is the one letter alpha, U+03B1.
  \<open>serialize\<close> writes its Latin-1 bytes, a question mark, and \<open>deserialize\<close> reads
  the label back as a question mark, even with a conversion that reads each byte as
  the code unit of the same value.
\<close>

theorem deserialize_serialize_counterexample:
  "map_sum id (\<lambda>r. label (snd r))
      (deserialize demo (snd (serialize (setLabel [0x3B1] fresh_operator) [])) fresh_operator)
     = Inr (QLit ''?'')
   \<and> label (setLabel [0x3B1] fresh_operator) = [0x3B1]
   \<and> QLit ''?'' \<noteq> [0x3B1]"
proof -
  have finder: "FindTransformScalarsFunction fresh_operator
      = Some (PyFunction ''find_transform_scalars'')"
    and cancel: "IsCancelableFunction fresh_operator = Some (PyFunction ''is_cancelable'')"
    by (simp_all add: fresh_operator_def)
  have written: "attribute_as_string (snd (serialize (setLabel [0x3B1] fresh_operator) [])) ''label''
      = ''?''"
    by (simp add: attribute_after_serialize label_def setLabel_def emit_def toLatin1_def c_str_def)
  obtain y' where
    "deserialize demo (snd (serialize (setLabel [0x3B1] fresh_operator) [])) fresh_operator
       = Inr (True, y')"
    and "label y' = fromCString demo
           (attribute_as_string (snd (serialize (setLabel [0x3B1] fresh_operator) [])) ''label'')"
    using deserialize_result [OF finder cancel, of demo
            "snd (serialize (setLabel [0x3B1] fresh_operator) [])"]
    by (elim exE conjE)
  moreover have "label (setLabel [0x3B1] fresh_operator) = [0x3B1]"
    by (simp add: label_def setLabel_def emit_def)
  moreover have "fromCString demo = QLit"
    by (simp add: demo_def)
  ultimately show ?thesis
    by (simp add: written QLit_def)
qed

text \<open>
  C9, amended. For every operator \<open>x\<close>, an operator \<open>y\<close> whose two helper functions
  are bound, and a node without a label and a script attribute: \<open>deserialize\<close> of the
  node written by \<open>serialize(x)\<close> returns true and leaves in \<open>y\<close> the label and the
  script text of \<open>x\<close> as they come back from their Latin-1 C strings. They equal
  those of \<open>x\<close> when the text is ASCII without NUL and \<open>QString(const char*)\<close>
  reads its bytes as the code units of the same value.
\<close>

theorem deserialize_serialize:
  assumes "map_of ns ''label'' = None" and "map_of ns ''script'' = None"
    and "FindTransformScalarsFunction y = Some f" and "IsCancelableFunction y = Some g"
  shows "\<exists>y'. deserialize L (snd (serialize x ns)) y = Inr (True, y')
            \<and> label y' = fromCString L (c_str (toLatin1 (label x)))
            \<and> script y' = fromCString L (c_str (toLatin1 (script x)))
            \<and> (ascii_text (label x)
                 \<and> fromCString L (c_str (toLatin1 (label x))) = QLit (c_str (toLatin1 (label x)))
                 \<longrightarrow> label y' = label x)
            \<and> (ascii_text (script x)
                 \<and> fromCString L (c_str (toLatin1 (script x))) = QLit (c_str (toLatin1 (script x)))
                 \<longrightarrow> script y' = script x)"
proof -
  obtain y' where y': "deserialize L (snd (serialize x ns)) y = Inr (True, y')"
    and l: "label y' = fromCString L (attribute_as_string (snd (serialize x ns)) ''label'')"
    and s: "script y' = fromCString L (attribute_as_string (snd (serialize x ns)) ''script'')"
    using deserialize_result [OF assms(3,4), of L "snd (serialize x ns)"] by (elim exE conjE)
  have "label y' = fromCString L (c_str (toLatin1 (label x)))"
    using l by (simp add: attribute_after_serialize [OF assms(1,2)])
  moreover have "script y' = fromCString L (c_str (toLatin1 (script x)))"
    using s by (simp add: attribute_after_serialize [OF assms(1,2)])
  ultimately show ?thesis
    using y' by (auto simp: ascii_toLatin1)
qed

theorem deserialize_serialize_witness:
  "\<exists>y'. deserialize demo (snd (serialize (bound_operator script_hist) [])) fresh_operator
          = Inr (True, y')
        \<and> label y' = label (bound_operator script_hist)
        \<and> script y' = script (bound_operator script_hist)"
proof -
  have finder: "FindTransformScalarsFunction fresh_operator
      = Some (PyFunction ''find_transform_scalars'')"
    and cancel: "IsCancelableFunction fresh_operator = Some (PyFunction ''is_cancelable'')"
    by (simp_all add: fresh_operator_def)
  have lab: "ascii_text (label (bound_operator script_hist))"
    by (simp add: label_def bound_operator_def fresh_operator_def)
       (rule ascii_text_QLit, simp)
  have scr: "ascii_text (script (bound_operator script_hist))"
    by (simp add: script_def bound_operator_def scripts) (rule ascii_text_QLit, simp)
  have dec: "fromCString demo = QLit"
    by (simp add: demo_def)
  show ?thesis
    using deserialize_serialize [of "[]" fresh_operator _ _ demo "bound_operator script_hist",
            OF _ _ finder cancel] lab scr
    by (simp add: dec) blast
qed

section \<open>The example documents\<close>

lemmas docs = doc_hist_def doc_a_hist_def doc_two_children_def doc_child_no_name_def
  doc_child_no_label_def

lemmas json_steps = and_then_def parse_results_def parse_children_def result_entry_def
  resultAt_def result_setName_def result_setLabel_def setNumberOfResults_def
  setHasChildDataSource_def qCritical_def setLabel_def emit_def

lemma demo_reads:
  "Json_parse demo (c_str (toLatin1 (QLit doc_hist))) =
     Some (JObject [(''results'',
        JArray [JObject [(''name'', JString ''hist''), (''label'', JString ''Histogram'')]])])"
  "Json_parse demo (c_str (toLatin1 (QLit doc_a_hist))) =
     Some (JObject [(''results'',
        JArray [JObject [(''name'', JString ''a''), (''label'', JString ''A'')],
                JObject [(''name'', JString ''hist'')]])])"
  "Json_parse demo (c_str (toLatin1 (QLit doc_two_children))) =
     Some (JObject [(''children'',
        JArray [JObject [(''name'', JString ''seg''), (''label'', JString ''Segmentation'')],
                JObject [(''name'', JString ''rec''), (''label'', JString ''Rec'')]])])"
  "Json_parse demo (c_str (toLatin1 (QLit doc_child_no_name))) =
     Some (JObject [(''children'', JArray [JObject [(''label'', JString ''Segmentation'')]])])"
  "Json_parse demo (c_str (toLatin1 (QLit doc_child_no_label))) =
     Some (JObject [(''children'', JArray [JObject [(''name'', JString ''seg'')]])])"
  by (simp_all add: demo_def toLatin1_QLit demo_parse_def docs c_str_def)

lemma demo_fromCString: "fromCString demo = QLit"
  by (simp add: demo_def)

lemma no_description:
  "jsonDescription (bound_operator src) = []" "jsonDescription fresh_operator = []"
  by (simp_all add: bound_operator_def fresh_operator_def)

lemma docs_nonempty:
  "QLit doc_hist \<noteq> []" "QLit doc_a_hist \<noteq> []" "QLit doc_two_children \<noteq> []"
  "QLit doc_child_no_name \<noteq> []" "QLit doc_child_no_label \<noteq> []"
  by (simp_all add: QLit_Nil_iff docs)


lemma two_children_operator_reached:
  "setJSONDescription demo (QLit doc_two_children) fresh_operator = Inr two_children_operator"
  using docs_nonempty(3)
  by (simp add: setJSONDescription_def demo_reads demo_fromCString no_description json_steps
        c_str_no_NUL two_children_operator_def)
     (simp add: fresh_operator_def)

lemma nameless_child_operator_reached:
  "setJSONDescription demo (QLit doc_child_no_name) fresh_operator = Inr nameless_child_operator"
  using docs_nonempty(4)
  by (simp add: setJSONDescription_def demo_reads demo_fromCString no_description json_steps
        c_str_no_NUL nameless_child_operator_def)
     (simp add: fresh_operator_def)

section \<open>Properties of applyTransform\<close>

lemma return_CheckForError_eq:
  "return_CheckForError L x = Inr (\<not> PyErr_Occurred L (python x), snd (CheckForError L x))"
  by (simp add: return_CheckForError_def CheckForError_def)












text \<open>What the block that reads the dictionary writes when it comes to its end: the
  lines of the two loops and then, at most, the dictionary. It comes to its end
  whenever \<open>PyObject_Repr\<close> of the dictionary does not return null.\<close>

lemma read_dictionary_returns:
  assumes "\<forall>s. fst (PyObject_Repr L dict s) \<noteq> None"
  shows "\<exists>op3. read_dictionary L dict op = Inr op3"
proof -
  obtain e op1 where loops:
    "children_loop L dict (m_childDataSourceNamesAndLabels op)
       (results_loop L dict (m_resultNames op) (False, op)) = (e, op1)"
    by (cases "children_loop L dict (m_childDataSourceNamesAndLabels op)
                 (results_loop L dict (m_resultNames op) (False, op))")
  have "fst (PyObject_Repr L dict (python op1)) \<noteq> None"
    using assms by (rule allE)
  then obtain r where "fst (PyObject_Repr L dict (python op1)) = Some r"
    by (cases "fst (PyObject_Repr L dict (python op1))") simp_all
  then show ?thesis
    unfolding read_dictionary_def loops
    by (simp add: python_call_def case_prod_beta split: option.splits)
qed


lemma applyTransform_dictionary:
  assumes "Script op \<noteq> []" and "OperatorModule op = Some om" and "TransformMethod op = Some f"
    and "GetObjectFromPointer L d (python op) = (pydata, s1)"
    and "PyObject_Call L f [pydata] s1 = (Some dict, s2)"
    and "PyDict_Check L dict"
  shows "applyTransform L (Some d) op =
           and_then (read_dictionary L dict (op\<lparr>python := s2\<rparr>)) (return_CheckForError L)"
  using assms by (simp add: applyTransform_def python_call_def)

lemmas demo_reading = demo_def demo_getitem_def demo_item_def demo_pointer_def demo_wrapped_def
  demo_repr_def demo_as_string_def demo_call_def demo_raise_def demo_clear_def undecodable_def
  as_vtkDataObject_def python_call_def qCritical_def emit_def



lemma c_str_names:
  "c_str (toLatin1 (QLit ''hist'')) = ''hist''" "c_str (toLatin1 (QLit ''a'')) = ''a''"
  by (simp_all add: toLatin1_QLit c_str_def)











text \<open>
  The exception that a conversion raised does not always reach the last line: here
  the operator declares \<open>a\<close> and a name that is the letter e with an acute accent,
  U+00E9, whose Latin-1 byte is no UTF-8. The conversion of the number 5 raises; the
  lookup of the second name returns null and clears the exception; the dictionary is
  printed, and the invocation reports success.
\<close>

lemma applyTransform_exception_cleared:
  "map_sum id fst
     (applyTransform demo (Some 7)
        ((bound_operator script_number)\<lparr>m_resultNames := [QLit ''a'', [0xE9]]\<rparr>))
     = Inr True"
proof -
  let ?op = "(bound_operator script_number)\<lparr>m_resultNames := [QLit ''a'', [0xE9]]\<rparr>"
  let ?dict = "PyDict [(''a'', PyInt 5)]"
  have key: "c_str (toLatin1 [0xE9 :: 16 word]) = [CHR 0xE9]"
    by (simp add: toLatin1_def c_str_def char_of_eq_iff)
  have stored: "Script ?op \<noteq> []"
    by (simp add: bound_operator_def QLit_Nil_iff) (simp add: scripts)
  have bound: "OperatorModule ?op = Some (PyModule ''tomviz.utils'')"
    "TransformMethod ?op = Some (PyTransform script_number)"
    by (simp_all add: bound_operator_def fresh_operator_def)
  have data: "GetObjectFromPointer demo 7 (python ?op) = (PyVTK 7, python ?op)"
    by (simp add: demo_def)
  have returned: "PyObject_Call demo (PyTransform script_number) [PyVTK 7] (python ?op)
                    = (Some ?dict, python ?op)"
    by (simp add: demo_def demo_call_def scripts)
  have dictionary: "PyDict_Check demo ?dict"
    by (simp add: demo_def)
  have "\<exists>op3. read_dictionary demo ?dict ?op = Inr op3 \<and> \<not> pending (python op3)"
    by (simp add: read_dictionary_def Let_def bound_operator_def fresh_operator_def
          c_str_names key demo_reading)
  then obtain op3 where "read_dictionary demo ?dict ?op = Inr op3"
    and "\<not> PyErr_Occurred demo (python op3)"
    by (auto simp add: demo_def)
  then show ?thesis
    by (simp add: applyTransform_dictionary [OF stored bound data returned dictionary]
          and_then_def return_CheckForError_eq)
qed

section \<open>Properties of setJSONDescription\<close>

lemma text_or_null_cases: "text_or_null v \<Longrightarrow> v = JNull \<or> (\<exists>s. v = JString s)"
  by (cases v) simp_all

lemma result_entry_wf:
  assumes "wf_entry (es ! i)" and "i < length es" and "i < length (m_results op)"
  shows "result_entry L (JArray es) i op =
           Inr (op\<lparr>m_results := (m_results op)[i := apply_entry L (es ! i) (m_results op ! i)],
                   m_resultNames := m_resultNames op @ entry_names L (es ! i)\<rparr>)"
proof -
  obtain n l where n: "json_member (es ! i) ''name'' = Inr n" and tn: "text_or_null n"
    and l: "json_member (es ! i) ''label'' = Inr l" and tl: "text_or_null l"
    using assms(1) by (auto simp: wf_entry_def split: sum.splits)
  have same: "(m_results op)[i := m_results op ! i] = m_results op"
    by simp
  have slot: "\<lparr>result_name = result_name s, result_label = result_label s\<rparr> = s"
    and upd_name: "s\<lparr>result_name := x\<rparr> = \<lparr>result_name = x, result_label = result_label s\<rparr>"
    and upd_label: "s\<lparr>result_label := x\<rparr> = \<lparr>result_name = result_name s, result_label = x\<rparr>"
    for s :: operator_result and x
    by (cases s, simp)+
  consider (nn) "n = JNull" "l = JNull" | (ns) s where "n = JNull" "l = JString s"
    | (sn) s where "n = JString s" "l = JNull" | (ss) s u where "n = JString s" "l = JString u"
    using text_or_null_cases [OF tn] text_or_null_cases [OF tl] by blast
  then show ?thesis
  proof cases
    case nn
    then show ?thesis
      using assms(2,3)
      by (simp add: result_entry_def resultAt_def and_then_def n l member_text_def
            apply_entry_def entry_names_def slot same)
  next
    case ns
    then show ?thesis
      using assms(2,3)
      by (simp add: result_entry_def resultAt_def and_then_def n l member_text_def
            apply_entry_def entry_names_def result_setLabel_def upd_label)
  next
    case sn
    then show ?thesis
      using assms(2,3)
      by (simp add: result_entry_def resultAt_def and_then_def n l member_text_def
            apply_entry_def entry_names_def result_setName_def upd_name)
  next
    case ss
    then show ?thesis
      using assms(2,3)
      by (simp add: result_entry_def resultAt_def and_then_def n l member_text_def
            apply_entry_def entry_names_def result_setName_def result_setLabel_def
            upd_name upd_label)
  qed
qed

lemma result_entry_not_wf:
  assumes "\<not> wf_entry (es ! i)" and "i < length es" and "i < length (m_results op)"
  shows "\<exists>e. result_entry L (JArray es) i op = Inl e"
proof -
  have not_text: "\<not> isNull v \<and> asCString v = Inl JsonLogicError" if "\<not> text_or_null v" for v
    using that by (cases v) simp_all
  show ?thesis
  proof (cases "json_member (es ! i) ''name''")
    case (Inl e)
    then show ?thesis
      using assms(2,3) by (simp add: result_entry_def resultAt_def and_then_def)
  next
    case n: (Inr n)
    show ?thesis
    proof (cases "text_or_null n")
      case False
      then show ?thesis
        using assms(2,3) not_text [OF False]
        by (simp add: result_entry_def resultAt_def and_then_def n)
    next
      case True
      then obtain l where l: "json_member (es ! i) ''label'' = Inr l" and "\<not> text_or_null l"
        using assms(1) n by (cases "es ! i") (auto simp: wf_entry_def split: sum.splits)
      then show ?thesis
        using assms(2,3) not_text [of l] text_or_null_cases [OF True]
        by (auto simp add: result_entry_def resultAt_def and_then_def n l)
    qed
  qed
qed

lemma result_entries_wf:
  assumes "\<forall>i\<in>set idx. i < length es \<and> i < length (m_results op) \<and> wf_entry (es ! i)"
  shows "result_entries L (JArray es) idx op =
           Inr (op\<lparr>m_results :=
                     fold (\<lambda>i rs. rs[i := apply_entry L (es ! i) (rs ! i)]) idx (m_results op),
                   m_resultNames :=
                     m_resultNames op @ concat (map (\<lambda>i. entry_names L (es ! i)) idx)\<rparr>)"
  using assms
proof (induction idx arbitrary: op)
  case Nil
  then show ?case by simp
next
  case (Cons i idx)
  let ?op1 = "op\<lparr>m_results := (m_results op)[i := apply_entry L (es ! i) (m_results op ! i)],
                   m_resultNames := m_resultNames op @ entry_names L (es ! i)\<rparr>"
  have step: "result_entry L (JArray es) i op = Inr ?op1"
    using Cons.prems by (simp add: result_entry_wf)
  have "\<forall>j\<in>set idx. j < length es \<and> j < length (m_results ?op1) \<and> wf_entry (es ! j)"
    using Cons.prems by simp
  from Cons.IH [OF this] show ?case
    by (simp add: step and_then_def)
qed

lemma result_entries_returns:
  assumes "result_entries L (JArray es) idx op = Inr op'"
    and "\<forall>i\<in>set idx. i < length es \<and> i < length (m_results op)"
  shows "\<forall>i\<in>set idx. wf_entry (es ! i)"
  using assms
proof (induction idx arbitrary: op)
  case Nil
  then show ?case by simp
next
  case (Cons i idx)
  let ?op1 = "op\<lparr>m_results := (m_results op)[i := apply_entry L (es ! i) (m_results op ! i)],
                   m_resultNames := m_resultNames op @ entry_names L (es ! i)\<rparr>"
  have bounds: "i < length es" "i < length (m_results op)"
    using Cons.prems(2) by simp_all
  have wf: "wf_entry (es ! i)"
  proof (rule ccontr)
    assume "\<not> wf_entry (es ! i)"
    from result_entry_not_wf [OF this bounds, of L] Cons.prems(1) show False
      by (auto simp: and_then_def)
  qed
  have step: "result_entry L (JArray es) i op = Inr ?op1"
    using wf bounds by (simp add: result_entry_wf)
  have rest: "result_entries L (JArray es) idx ?op1 = Inr op'"
    using Cons.prems(1) by (simp add: step and_then_def)
  have "\<forall>j\<in>set idx. j < length es \<and> j < length (m_results ?op1)"
    using Cons.prems(2) by simp
  from Cons.IH [OF rest this] wf show ?case
    by simp
qed

lemma fold_entries:
  assumes "k \<le> length rs" and "k \<le> length es"
  shows "fold (\<lambda>i rs. rs[i := apply_entry L (es ! i) (rs ! i)]) [0..<k] rs =
           map (\<lambda>j. apply_entry L (es ! j) (rs ! j)) [0..<k] @ drop k rs"
  using assms
proof (induction k)
  case 0
  then show ?case by simp
next
  case (Suc k)
  then have IH: "fold (\<lambda>i rs. rs[i := apply_entry L (es ! i) (rs ! i)]) [0..<k] rs =
           map (\<lambda>j. apply_entry L (es ! j) (rs ! j)) [0..<k] @ drop k rs"
    by simp
  have k: "k < length rs"
    using Suc.prems by simp
  then have "drop k rs = rs ! k # drop (Suc k) rs"
    by (simp add: Cons_nth_drop_Suc)
  then show ?case
    using k by (simp add: IH list_update_append nth_append)
qed

lemma apply_entry_fresh:
  "apply_entry L e \<lparr>result_name = [], result_label = []\<rparr> = slot_of_entry L e"
  by (simp add: apply_entry_def slot_of_entry_def split: option.splits)

lemma fold_fresh_entries:
  "fold (\<lambda>i rs. rs[i := apply_entry L (es ! i) (rs ! i)]) [0..<length es]
     (replicate (length es) \<lparr>result_name = [], result_label = []\<rparr>)
   = map (slot_of_entry L) es"
proof -
  have "map (\<lambda>j. apply_entry L (es ! j)
               (replicate (length es) \<lparr>result_name = [], result_label = []\<rparr> ! j)) [0..<length es]
        = map (\<lambda>j. slot_of_entry L (es ! j)) [0..<length es]"
    by (rule map_cong) (simp_all add: apply_entry_fresh)
  also have "\<dots> = map (slot_of_entry L) es"
    by (rule nth_equalityI) simp_all
  finally show ?thesis
    by (simp add: fold_entries)
qed

lemma isNull_iff: "isNull v \<longleftrightarrow> v = JNull"
  by (cases v) simp_all

lemma parse_children_wf:
  assumes "json_member root ''children'' = Inr (JArray (c # cs))" and "wf_child c"
  shows "parse_children L root op =
           Inr (op\<lparr>hasChildDataSource := True,
                   m_childDataSourceNamesAndLabels :=
                     m_childDataSourceNamesAndLabels op @ child_pair L c,
                   emitted := emitted op
                     @ (if cs \<noteq> [] then [only_one_child (Suc (length cs))] else [])
                     @ child_complaint c\<rparr>)"
proof -
  obtain n l where n: "json_member c ''name'' = Inr n" and l: "json_member c ''label'' = Inr l"
    and ok: "n = JNull \<or> l = JNull \<or> (text_or_null n \<and> text_or_null l)"
    using assms(2) by (auto simp: wf_child_def isNull_iff split: sum.splits)
  consider (no_name) "n = JNull" | (no_label) "n \<noteq> JNull" "l = JNull"
    | (both) s u where "n = JString s" "l = JString u"
    using ok text_or_null_cases [of n] text_or_null_cases [of l] by blast
  then show ?thesis
  proof cases
    case no_name
    then show ?thesis
      by (simp add: parse_children_def and_then_def assms(1) n l child_pair_def member_text_def
            child_complaint_def only_one_child_def qCritical_def setHasChildDataSource_def)
  next
    case no_label
    then show ?thesis
      by (simp add: parse_children_def and_then_def assms(1) n l child_pair_def member_text_def
            child_complaint_def only_one_child_def qCritical_def setHasChildDataSource_def
            isNull_iff split: json.splits)
  next
    case both
    then show ?thesis
      by (simp add: parse_children_def and_then_def assms(1) n l child_pair_def member_text_def
            child_complaint_def only_one_child_def qCritical_def setHasChildDataSource_def)
  qed
qed

lemma parse_children_not_wf:
  assumes "json_member root ''children'' = Inr (JArray (c # cs))" and "\<not> wf_child c"
  shows "\<exists>e. parse_children L root op = Inl e"
proof -
  have not_text: "asCString v = Inl JsonLogicError" if "\<not> text_or_null v" for v
    using that by (cases v) simp_all
  show ?thesis
  proof (cases "json_member c ''name''")
    case (Inl e)
    then show ?thesis
      by (simp add: parse_children_def and_then_def assms(1))
  next
    case n: (Inr n)
    show ?thesis
    proof (cases "json_member c ''label''")
      case (Inl e)
      then show ?thesis
        by (simp add: parse_children_def and_then_def assms(1) n)
    next
      case l: (Inr l)
      have "\<not> isNull n" and "\<not> isNull l" and "\<not> text_or_null n \<or> \<not> text_or_null l"
        using assms(2) by (simp_all add: wf_child_def n l)
      then show ?thesis
        using not_text [of n] not_text [of l] text_or_null_cases [of n]
        by (auto simp add: parse_children_def and_then_def assms(1) n l isNull_iff Let_def
              split: sum.splits)
    qed
  qed
qed

lemma parse_children_simple:
  "json_member root ''children'' = Inr JNull \<Longrightarrow> parse_children L root op = Inr op"
  "json_member root ''children'' = Inr (JArray []) \<Longrightarrow>
     parse_children L root op = Inr (op\<lparr>emitted := emitted op @ [only_one_child 0]\<rparr>)"
  by (simp_all add: parse_children_def and_then_def only_one_child_def qCritical_def)

lemma and_then_Inr: "and_then r f = Inr y \<longleftrightarrow> (\<exists>x. r = Inr x \<and> f x = Inr y)"
  by (cases r) (simp_all add: and_then_def)

lemma setJSONDescription_parsed:
  assumes "jsonDescription op \<noteq> str" and "Json_parse L (c_str (toLatin1 str)) = Some root"
    and "json_member root ''label'' = Inr v" and "text_or_null v"
  shows "setJSONDescription L str op =
           and_then (parse_results L root (labelled L str v op)) (parse_children L root)"
  using assms text_or_null_cases [OF assms(4)]
  by (auto simp add: setJSONDescription_def and_then_def labelled_def)

lemma setJSONDescription_returns_label:
  assumes "jsonDescription op \<noteq> str" and "Json_parse L (c_str (toLatin1 str)) = Some root"
    and "setJSONDescription L str op = Inr op'"
  shows "\<exists>v. json_member root ''label'' = Inr v \<and> text_or_null v"
proof (cases "json_member root ''label''")
  case (Inl e)
  then show ?thesis
    using assms by (simp add: setJSONDescription_def and_then_def)
next
  case (Inr v)
  have "text_or_null v"
  proof (rule ccontr)
    assume "\<not> text_or_null v"
    then have "\<not> isNull v" and "asCString v = Inl JsonLogicError"
      by (cases v; simp)+
    then show False
      using assms Inr by (simp add: setJSONDescription_def and_then_def)
  qed
  then show ?thesis
    using Inr by simp
qed

lemma labelled_fields:
  "m_childDataSourceNamesAndLabels (labelled L str v op) = []"
  "m_resultNames (labelled L str v op) = []"
  "jsonDescription (labelled L str v op) = str"
  "hasChildDataSource (labelled L str v op) = hasChildDataSource op"
  "emitted (labelled L str v op) =
     emitted op @ (case v of JString s \<Rightarrow> [labelModified] | _ \<Rightarrow> [])"
  by (simp_all add: labelled_def setLabel_def emit_def split: json.splits)

lemma result_entry_frame:
  assumes "result_entry L node i op = Inr op'"
  shows "emitted op' = emitted op \<and> hasChildDataSource op' = hasChildDataSource op
         \<and> m_childDataSourceNamesAndLabels op' = m_childDataSourceNamesAndLabels op
         \<and> jsonDescription op' = jsonDescription op"
proof -
  from assms obtain oa entry n op1 l where
    "and_then (if \<not> isNull n
               then and_then (asCString n) (\<lambda>s.
                      Inr ((result_setName i (fromCString L s) op)
                             \<lparr>m_resultNames := m_resultNames op @ [fromCString L s]\<rparr>))
               else Inr op) Inr = Inr op1"
    and "(if \<not> isNull l
          then and_then (asCString l) (\<lambda>s. Inr (result_setLabel i (fromCString L s) op1))
          else Inr op1) = Inr op'"
    by (auto simp add: result_entry_def and_then_Inr split: option.splits)
  then show ?thesis
    by (auto simp add: and_then_Inr result_setName_def result_setLabel_def split: if_splits)
qed

lemma result_entries_frame:
  assumes "result_entries L node idx op = Inr op'"
  shows "emitted op' = emitted op \<and> hasChildDataSource op' = hasChildDataSource op
         \<and> m_childDataSourceNamesAndLabels op' = m_childDataSourceNamesAndLabels op
         \<and> jsonDescription op' = jsonDescription op"
  using assms
proof (induction idx arbitrary: op)
  case Nil
  then show ?case by simp
next
  case (Cons i idx)
  then obtain op1 where "result_entry L node i op = Inr op1"
    and "result_entries L node idx op1 = Inr op'"
    by (auto simp: and_then_Inr)
  then show ?case
    using Cons.IH [of op1] result_entry_frame [of L node i op op1] by simp
qed

lemma parse_results_frame:
  assumes "parse_results L root op = Inr op'"
  shows "emitted op' = emitted op \<and> hasChildDataSource op' = hasChildDataSource op
         \<and> m_childDataSourceNamesAndLabels op' = m_childDataSourceNamesAndLabels op
         \<and> jsonDescription op' = jsonDescription op"
proof -
  from assms have "\<exists>node. json_member root ''results'' = Inr node \<and>
          (if \<not> isNull node
           then result_entries L node [0..<json_size node]
                  (setNumberOfResults (json_size node) op)
           else Inr op) = Inr op'"
    unfolding parse_results_def Let_def and_then_Inr .
  then obtain node where
    run: "(if \<not> isNull node
           then result_entries L node [0..<json_size node]
                  (setNumberOfResults (json_size node) op)
           else Inr op) = Inr op'"
    by blast
  show ?thesis
  proof (cases "isNull node")
    case True
    then show ?thesis using run by simp
  next
    case False
    then show ?thesis
      using run result_entries_frame [of L node "[0..<json_size node]"
                  "setNumberOfResults (json_size node) op" op']
      by (simp add: setNumberOfResults_def)
  qed
qed

lemma parse_results_array:
  assumes "json_member root ''results'' = Inr (JArray es)"
  shows "list_all wf_entry es \<Longrightarrow>
           parse_results L root op =
             Inr (op\<lparr>m_results := map (slot_of_entry L) es,
                     m_resultNames := m_resultNames op @ concat (map (entry_names L) es)\<rparr>)"
    and "parse_results L root op = Inr op' \<Longrightarrow> list_all wf_entry es"
proof -
  let ?op0 = "setNumberOfResults (length es) op"
  have run: "parse_results L root op = result_entries L (JArray es) [0..<length es] ?op0"
    by (simp add: parse_results_def and_then_def assms Let_def)
  have bounds: "\<forall>i\<in>set [0..<length es]. i < length es \<and> i < length (m_results ?op0)"
    by (simp add: setNumberOfResults_def)
  have names: "concat (map (\<lambda>i. entry_names L (es ! i)) [0..<length es])
                 = concat (map (entry_names L) es)"
    by (rule arg_cong [where f = concat], rule nth_equalityI) simp_all
  show "parse_results L root op =
             Inr (op\<lparr>m_results := map (slot_of_entry L) es,
                     m_resultNames := m_resultNames op @ concat (map (entry_names L) es)\<rparr>)"
    if "list_all wf_entry es"
  proof -
    have "\<forall>i\<in>set [0..<length es]. i < length es \<and> i < length (m_results ?op0)
            \<and> wf_entry (es ! i)"
      using that bounds by (simp add: list_all_length)
    from result_entries_wf [OF this, of L] show ?thesis
      by (simp add: run names) (simp add: setNumberOfResults_def fold_fresh_entries)
  qed
  show "list_all wf_entry es" if "parse_results L root op = Inr op'"
    using result_entries_returns [OF _ bounds, of L op'] that
    by (simp add: run list_all_length)
qed

lemma parse_results_null:
  "json_member root ''results'' = Inr JNull \<Longrightarrow> parse_results L root op = Inr op"
  by (simp add: parse_results_def and_then_def)

lemma same_results_steps:
  "same_results op op"
  "same_results op op1 \<Longrightarrow> same_results op (qCritical m op1)"
  "same_results op op1 \<Longrightarrow> same_results op (setHasChildDataSource b op1)"
  "same_results op op1 \<Longrightarrow> same_results op (op1\<lparr>m_childDataSourceNamesAndLabels := cs\<rparr>)"
  by (simp_all add: same_results_def qCritical_def setHasChildDataSource_def)

lemma first_child_frame:
  assumes "same_results op op2"
    and "(if \<not> isNull nameValue \<and> \<not> isNull labelValue then
            and_then (asCString nameValue) (\<lambda>n.
            and_then (asCString labelValue) (\<lambda>l.
              Inr (op2\<lparr>m_childDataSourceNamesAndLabels :=
                         m_childDataSourceNamesAndLabels op2
                         @ [(fromCString L n, fromCString L l)]\<rparr>)))
          else if isNull nameValue then
            Inr (qCritical [Text ''No name given for child DataSet''] op2)
          else if isNull labelValue then
            Inr (qCritical [Text ''No label given for child DataSet''] op2)
          else Inr op2) = Inr op'"
  shows "same_results op op'"
proof (cases "\<not> isNull nameValue \<and> \<not> isNull labelValue")
  case True
  with assms(2) obtain n l where
    "op' = op2\<lparr>m_childDataSourceNamesAndLabels :=
                 m_childDataSourceNamesAndLabels op2 @ [(fromCString L n, fromCString L l)]\<rparr>"
    by (auto simp: and_then_Inr)
  then show ?thesis
    using assms(1) by (simp add: same_results_steps)
next
  case False
  with assms(2) have "op' = qCritical [Text ''No name given for child DataSet''] op2
      \<or> op' = qCritical [Text ''No label given for child DataSet''] op2"
    by (auto split: if_splits)
  then show ?thesis
    using assms(1) by (auto simp: same_results_steps)
qed

lemma parse_children_frame:
  assumes "parse_children L root op = Inr op'"
  shows "same_results op op'"
proof -
  let ?first = "\<lambda>op1. and_then (json_at (case json_member root ''children'' of Inr v \<Rightarrow> v) 0)
     (\<lambda>first.
        and_then (json_member first ''name'') (\<lambda>nameValue.
        and_then (json_member first ''label'') (\<lambda>labelValue.
          if \<not> isNull nameValue \<and> \<not> isNull labelValue then
            and_then (asCString nameValue) (\<lambda>n.
            and_then (asCString labelValue) (\<lambda>l.
              Inr ((setHasChildDataSource True op1)\<lparr>m_childDataSourceNamesAndLabels :=
                     m_childDataSourceNamesAndLabels (setHasChildDataSource True op1)
                     @ [(fromCString L n, fromCString L l)]\<rparr>)))
          else if isNull nameValue then
            Inr (qCritical [Text ''No name given for child DataSet'']
                   (setHasChildDataSource True op1))
          else if isNull labelValue then
            Inr (qCritical [Text ''No label given for child DataSet'']
                   (setHasChildDataSource True op1))
          else Inr (setHasChildDataSource True op1))))"
  have tail: "same_results op op'" if "same_results op op1" and "?first op1 = Inr op'" for op1
  proof -
    from that(2) obtain nameValue labelValue where
      "(if \<not> isNull nameValue \<and> \<not> isNull labelValue then
            and_then (asCString nameValue) (\<lambda>n.
            and_then (asCString labelValue) (\<lambda>l.
              Inr ((setHasChildDataSource True op1)\<lparr>m_childDataSourceNamesAndLabels :=
                     m_childDataSourceNamesAndLabels (setHasChildDataSource True op1)
                     @ [(fromCString L n, fromCString L l)]\<rparr>)))
          else if isNull nameValue then
            Inr (qCritical [Text ''No name given for child DataSet'']
                   (setHasChildDataSource True op1))
          else if isNull labelValue then
            Inr (qCritical [Text ''No label given for child DataSet'']
                   (setHasChildDataSource True op1))
          else Inr (setHasChildDataSource True op1)) = Inr op'"
      unfolding and_then_Inr by blast
    from first_child_frame [OF same_results_steps(3) [OF that(1)] this] show ?thesis .
  qed
  from assms obtain node where node: "json_member root ''children'' = Inr node"
    by (cases "json_member root ''children''") (simp_all add: parse_children_def and_then_def)
  consider (null) "isNull node" | (none) "\<not> isNull node" "json_size node = 0"
    | (one) "\<not> isNull node" "json_size node = 1"
    | (more) "\<not> isNull node" "json_size node > 1"
    by (cases "json_size node") auto
  then show ?thesis
  proof cases
    case null
    then show ?thesis
      using assms by (simp add: parse_children_def and_then_def node same_results_steps)
  next
    case none
    then have "op' = qCritical [Text ''Only one child dataset is supported for now. Found'',
                                Count 0, Text '' but only the first will be used''] op"
      using assms by (simp add: parse_children_def and_then_def node Let_def)
    then show ?thesis
      by (simp add: same_results_steps)
  next
    case one
    then have "?first op = Inr op'"
      using assms by (simp add: parse_children_def node Let_def and_then_def [of "Inr node"])
    then show ?thesis
      by (rule tail [OF same_results_steps(1)])
  next
    case more
    then have "?first (qCritical [Text ''Only one child dataset is supported for now. Found'',
                                  Count (json_size node),
                                  Text '' but only the first will be used''] op) = Inr op'"
      using assms by (simp add: parse_children_def node Let_def and_then_def [of "Inr node"])
    then show ?thesis
      by (rule tail [OF same_results_steps(2) [OF same_results_steps(1)]])
  qed
qed

lemma wf_descriptor_label:
  assumes "wf_descriptor root"
  obtains v where "json_member root ''label'' = Inr v" and "text_or_null v"
  using assms by (cases "json_member root ''label''") (simp_all add: wf_descriptor_def)

lemma wf_descriptor_results:
  assumes "wf_descriptor root"
  shows "json_member root ''results'' = Inr JNull
         \<or> (\<exists>es. json_member root ''results'' = Inr (JArray es) \<and> list_all wf_entry es)"
proof (cases "json_member root ''results''")
  case (Inl e)
  then show ?thesis using assms by (simp add: wf_descriptor_def)
next
  case (Inr r)
  then show ?thesis using assms by (cases r) (simp_all add: wf_descriptor_def)
qed

lemma wf_descriptor_children:
  assumes "wf_descriptor root"
  shows "json_member root ''children'' = Inr JNull
         \<or> json_member root ''children'' = Inr (JArray [])
         \<or> (\<exists>c cs. json_member root ''children'' = Inr (JArray (c # cs)) \<and> wf_child c)"
proof (cases "json_member root ''children''")
  case (Inl e)
  then show ?thesis using assms by (simp add: wf_descriptor_def)
next
  case (Inr r)
  show ?thesis
  proof (cases r)
    case (JArray cs)
    then show ?thesis using assms Inr by (cases cs) (simp_all add: wf_descriptor_def)
  qed (use assms Inr in \<open>simp_all add: wf_descriptor_def\<close>)
qed

lemma setJSONDescription_wf_returns:
  assumes "jsonDescription op \<noteq> str" and "Json_parse L (c_str (toLatin1 str)) = Some root"
    and "wf_descriptor root"
  shows "\<exists>op'. setJSONDescription L str op = Inr op'"
proof -
  from wf_descriptor_label [OF assms(3)] obtain v
    where v: "json_member root ''label'' = Inr v" "text_or_null v"
    by blast
  obtain op4 where op4: "parse_results L root (labelled L str v op) = Inr op4"
    using wf_descriptor_results [OF assms(3)] parse_results_null [of root L]
      parse_results_array(1) [of root _ L]
    by blast
  have "\<exists>op'. parse_children L root op4 = Inr op'"
    using wf_descriptor_children [OF assms(3)] parse_children_simple [of root L op4]
      parse_children_wf [of root _ _ L op4]
    by metis
  then show ?thesis
    by (simp add: setJSONDescription_parsed [OF assms(1,2) v] op4 and_then_def)
qed

lemma setJSONDescription_returns:
  assumes "jsonDescription op \<noteq> str" and "Json_parse L (c_str (toLatin1 str)) = Some root"
    and "setJSONDescription L str op = Inr op'"
  obtains v op4 where "json_member root ''label'' = Inr v"
    and "parse_results L root (labelled L str v op) = Inr op4"
    and "parse_children L root op4 = Inr op'"
proof -
  from setJSONDescription_returns_label [OF assms] obtain v
    where v: "json_member root ''label'' = Inr v" "text_or_null v"
    by blast
  from assms(3) obtain op4 where "parse_results L root (labelled L str v op) = Inr op4"
    and "parse_children L root op4 = Inr op'"
    by (auto simp add: setJSONDescription_parsed [OF assms(1,2) v] and_then_Inr)
  with v(1) that show thesis
    by blast
qed

lemma setJSONDescription_children:
  assumes "jsonDescription op \<noteq> str" and "Json_parse L (c_str (toLatin1 str)) = Some root"
    and "json_member root ''children'' = Inr (JArray (c # cs))"
    and "setJSONDescription L str op = Inr op'"
  shows "m_childDataSourceNamesAndLabels op' = child_pair L c"
    and "hasChildDataSource op'"
    and "jsonDescription op' = str"
    and "\<exists>before. output_since op op' =
            before @ (if cs \<noteq> [] then [only_one_child (Suc (length cs))] else [])
              @ child_complaint c"
proof -
  from setJSONDescription_returns [OF assms(1,2,4)] obtain v op4
    where op4: "parse_results L root (labelled L str v op) = Inr op4"
      and op': "parse_children L root op4 = Inr op'"
    by blast
  have wf: "wf_child c"
    using parse_children_not_wf [OF assms(3), of L op4] op' by auto
  note frame = parse_results_frame [OF op4] labelled_fields [of L str v op]
  note result = parse_children_wf [OF assms(3) wf, of L op4]
  from op' show "m_childDataSourceNamesAndLabels op' = child_pair L c"
    and "hasChildDataSource op'" and "jsonDescription op' = str"
    by (auto simp add: result frame)
  from op' have "emitted op' = emitted op @ (case v of JString s \<Rightarrow> [labelModified] | _ \<Rightarrow> [])
          @ (if cs \<noteq> [] then [only_one_child (Suc (length cs))] else []) @ child_complaint c"
    by (auto simp add: result frame)
  then show "\<exists>before. output_since op op' =
            before @ (if cs \<noteq> [] then [only_one_child (Suc (length cs))] else [])
              @ child_complaint c"
    by (simp add: output_since_def)
qed

subsection \<open>The Result slots\<close>

text \<open>
  C6. For every JSON descriptor that is parsed and whose \<open>results\<close> member is an array
  of N entries: whenever \<open>setJSONDescription\<close> returns, the operator has exactly N
  Result slots, in the order of the entries, the name and the label of each slot
  being those of its entry, and a half that the entry does not give being left
  empty; and \<open>setJSONDescription\<close> does return on every descriptor on which no
  accessor of the JSON library fails. The Result slots of the base class are
  modelled from the spec.
\<close>

theorem setJSONDescription_result_slots:
  assumes "jsonDescription op \<noteq> str" and "Json_parse L (c_str (toLatin1 str)) = Some root"
    and "json_member root ''results'' = Inr (JArray es)"
  shows "(\<forall>op'. setJSONDescription L str op = Inr op' \<longrightarrow>
            length (m_results op') = length es \<and> m_results op' = map (slot_of_entry L) es)
         \<and> (wf_descriptor root \<longrightarrow> (\<exists>op'. setJSONDescription L str op = Inr op'))"
proof -
  have "m_results op' = map (slot_of_entry L) es" if "setJSONDescription L str op = Inr op'" for op'
  proof -
    from setJSONDescription_returns [OF assms(1,2) that] obtain v op4
      where op4: "parse_results L root (labelled L str v op) = Inr op4"
        and op': "parse_children L root op4 = Inr op'"
      by blast
    have "list_all wf_entry es"
      using op4 by (rule parse_results_array(2) [OF assms(3)])
    from parse_results_array(1) [OF assms(3) this, of L "labelled L str v op"] op4
    have "m_results op4 = map (slot_of_entry L) es"
      by auto
    then show ?thesis
      using parse_children_frame [OF op'] by (simp add: same_results_def)
  qed
  then show ?thesis
    using setJSONDescription_wf_returns [OF assms(1,2)] by auto
qed

theorem setJSONDescription_result_slots_witness:
  "\<exists>op'. setJSONDescription demo (QLit doc_a_hist) fresh_operator = Inr op'
      \<and> length (m_results op') = 2
      \<and> m_results op' = [\<lparr>result_name = QLit ''a'', result_label = QLit ''A''\<rparr>,
                          \<lparr>result_name = QLit ''hist'', result_label = []\<rparr>]"
proof -
  let ?a = "JObject [(''name'', JString ''a''), (''label'', JString ''A'')]"
  let ?hist = "JObject [(''name'', JString ''hist'')]"
  let ?root = "JObject [(''results'', JArray [?a, ?hist])]"
  have differs: "jsonDescription fresh_operator \<noteq> QLit doc_a_hist"
    using docs_nonempty(2) by (simp add: no_description)
  have results: "json_member ?root ''results'' = Inr (JArray [?a, ?hist])"
    by simp
  have wf: "wf_descriptor ?root"
    by (simp add: wf_descriptor_def wf_entry_def)
  have slots: "slot_of_entry demo ?a = \<lparr>result_name = QLit ''a'', result_label = QLit ''A''\<rparr>"
    "slot_of_entry demo ?hist = \<lparr>result_name = QLit ''hist'', result_label = []\<rparr>"
    by (simp_all add: slot_of_entry_def member_text_def demo_fromCString c_str_no_NUL)
  show ?thesis
    using setJSONDescription_result_slots [OF differs demo_reads(2) results] wf
    by (auto simp add: slots)
qed

subsection \<open>More than one child\<close>

text \<open>
  C7, as stated, fails in what the message names. The document declares two
  children, so one is discarded; the line that \<open>setJSONDescription\<close> prints names
  2, the number of entries found, and no line names 1.
\<close>

theorem setJSONDescription_several_children_counterexample:
  "setJSONDescription demo (QLit doc_two_children) fresh_operator = Inr two_children_operator
   \<and> Json_parse demo (c_str (toLatin1 (QLit doc_two_children))) =
       Some (JObject [(''children'',
          JArray [JObject [(''name'', JString ''seg''), (''label'', JString ''Segmentation'')],
                  JObject [(''name'', JString ''rec''), (''label'', JString ''Rec'')]])])
   \<and> emitted two_children_operator = [only_one_child 2]
   \<and> only_one_child (2 - 1) \<notin> set (emitted two_children_operator)"
  by (simp add: two_children_operator_reached demo_reads)
     (simp add: two_children_operator_def only_one_child_def)

text \<open>
  C7, amended. For every JSON descriptor that is parsed and whose \<open>children\<close> array
  has more than one entry: whenever \<open>setJSONDescription\<close> returns, only the first
  entry has configured the child dataset (the list of child names and labels is what
  the first entry alone gives), the line printed names the number of entries found,
  and the description is installed; and \<open>setJSONDescription\<close> does return on every
  descriptor on which no accessor of the JSON library fails, whatever the entries
  after the first are.
\<close>

theorem setJSONDescription_several_children:
  assumes "jsonDescription op \<noteq> str" and "Json_parse L (c_str (toLatin1 str)) = Some root"
    and "json_member root ''children'' = Inr (JArray (c # cs))" and "cs \<noteq> []"
  shows "(\<forall>op'. setJSONDescription L str op = Inr op' \<longrightarrow>
            m_childDataSourceNamesAndLabels op' = child_pair L c
            \<and> hasChildDataSource op'
            \<and> jsonDescription op' = str
            \<and> only_one_child (length (c # cs)) \<in> set (output_since op op'))
         \<and> (wf_descriptor root \<longrightarrow> (\<exists>op'. setJSONDescription L str op = Inr op'))"
proof -
  have "only_one_child (length (c # cs)) \<in> set (output_since op op')"
    if "setJSONDescription L str op = Inr op'" for op'
    using setJSONDescription_children(4) [OF assms(1,2,3) that] assms(4) by auto
  then show ?thesis
    using setJSONDescription_children(1,2,3) [OF assms(1,2,3)]
      setJSONDescription_wf_returns [OF assms(1,2)]
    by blast
qed

theorem setJSONDescription_several_children_witness:
  "\<exists>op'. setJSONDescription demo (QLit doc_two_children) fresh_operator = Inr op'
      \<and> m_childDataSourceNamesAndLabels op' = [(QLit ''seg'', QLit ''Segmentation'')]
      \<and> hasChildDataSource op'
      \<and> jsonDescription op' = QLit doc_two_children
      \<and> only_one_child 2 \<in> set (output_since fresh_operator op')"
proof -
  let ?first = "JObject [(''name'', JString ''seg''), (''label'', JString ''Segmentation'')]"
  let ?second = "JObject [(''name'', JString ''rec''), (''label'', JString ''Rec'')]"
  let ?root = "JObject [(''children'', JArray [?first, ?second])]"
  have differs: "jsonDescription fresh_operator \<noteq> QLit doc_two_children"
    using docs_nonempty(3) by (simp add: no_description)
  have children: "json_member ?root ''children'' = Inr (JArray (?first # [?second]))"
    by simp
  have several: "[?second] \<noteq> []"
    by simp
  have wf: "wf_descriptor ?root"
    by (simp add: wf_descriptor_def wf_child_def)
  have pair: "child_pair demo ?first = [(QLit ''seg'', QLit ''Segmentation'')]"
    by (simp add: child_pair_def member_text_def demo_fromCString c_str_no_NUL)
  show ?thesis
    using setJSONDescription_several_children [OF differs demo_reads(3) children several] wf
    by (auto simp add: pair eval_nat_numeral)
qed

subsection \<open>A first child without a name or a label\<close>

text \<open>
  C4, as stated, fails in its last part. The only child of the document has no name;
  \<open>setJSONDescription\<close> has called \<open>setHasChildDataSource(true)\<close> before it looks
  at the name and the label, so the operator, which expected no child dataset before
  the call, expects one after it.
\<close>

theorem setJSONDescription_incomplete_child_counterexample:
  "setJSONDescription demo (QLit doc_child_no_name) fresh_operator = Inr nameless_child_operator
   \<and> Json_parse demo (c_str (toLatin1 (QLit doc_child_no_name))) =
       Some (JObject [(''children'', JArray [JObject [(''label'', JString ''Segmentation'')]])])
   \<and> hasChildDataSource fresh_operator = False
   \<and> hasChildDataSource nameless_child_operator = True"
  by (simp add: nameless_child_operator_reached demo_reads)
     (simp add: nameless_child_operator_def fresh_operator_def)

text \<open>
  C4, amended. For every JSON descriptor that is parsed and whose \<open>children\<close> array
  has at index 0 an entry without a name or without a label: whenever
  \<open>setJSONDescription\<close> returns, it has printed the line about the missing name
  (or, when the name is there, the one about the missing label) and the list of child
  names and labels is empty, so that \<open>applyTransform\<close> looks for no child dataset;
  the flag \<open>hasChildDataSource\<close> is set all the same. \<open>setJSONDescription\<close> does
  return on every descriptor on which no accessor of the JSON library fails.
\<close>

theorem setJSONDescription_incomplete_child:
  assumes "jsonDescription op \<noteq> str" and "Json_parse L (c_str (toLatin1 str)) = Some root"
    and "json_member root ''children'' = Inr (JArray (c # cs))"
    and "json_member c ''name'' = Inr JNull \<or> json_member c ''label'' = Inr JNull"
  shows "(\<forall>op'. setJSONDescription L str op = Inr op' \<longrightarrow>
            m_childDataSourceNamesAndLabels op' = []
            \<and> hasChildDataSource op'
            \<and> (if json_member c ''name'' = Inr JNull
                then Critical [Text ''No name given for child DataSet'']
                else Critical [Text ''No label given for child DataSet''])
                 \<in> set (output_since op op'))
         \<and> (wf_descriptor root \<longrightarrow> (\<exists>op'. setJSONDescription L str op = Inr op'))"
proof -
  have none: "child_pair L c = []"
    using assms(4) by (auto simp: child_pair_def member_text_def split: option.splits)
  have complaint: "child_complaint c =
      [if json_member c ''name'' = Inr JNull
       then Critical [Text ''No name given for child DataSet'']
       else Critical [Text ''No label given for child DataSet'']]"
    using assms(4) by (auto simp: child_complaint_def)
  have "(if json_member c ''name'' = Inr JNull
         then Critical [Text ''No name given for child DataSet'']
         else Critical [Text ''No label given for child DataSet''])
          \<in> set (output_since op op')"
    if "setJSONDescription L str op = Inr op'" for op'
    using setJSONDescription_children(4) [OF assms(1,2,3) that]
    by (auto simp add: complaint)
  then show ?thesis
    using setJSONDescription_children(1,2) [OF assms(1,2,3)] none
      setJSONDescription_wf_returns [OF assms(1,2)]
    by auto
qed

theorem setJSONDescription_incomplete_child_witness:
  "\<exists>op'. setJSONDescription demo (QLit doc_child_no_label) fresh_operator = Inr op'
      \<and> m_childDataSourceNamesAndLabels op' = []
      \<and> hasChildDataSource op'
      \<and> Critical [Text ''No label given for child DataSet'']
           \<in> set (output_since fresh_operator op')"
proof -
  let ?first = "JObject [(''name'', JString ''seg'')]"
  let ?root = "JObject [(''children'', JArray [?first])]"
  have differs: "jsonDescription fresh_operator \<noteq> QLit doc_child_no_label"
    using docs_nonempty(5) by (simp add: no_description)
  have children: "json_member ?root ''children'' = Inr (JArray (?first # []))"
    by simp
  have incomplete: "json_member ?first ''name'' = Inr JNull
                    \<or> json_member ?first ''label'' = Inr JNull"
    by simp
  have wf: "wf_descriptor ?root"
    by (simp add: wf_descriptor_def wf_child_def)
  show ?thesis
    using setJSONDescription_incomplete_child [OF differs demo_reads(5) children incomplete] wf
    by auto
qed

end
